theory Spec2Isabelle
  imports Complex_Main "HOL-Library.Word" "HOL-Library.AList"
begin

section \<open>The exponential backoff of \<open>backoff.go\<close>\<close>

text \<open>
  \<open>FailConfig\<close> holds its numeric parameters in \<open>float64\<close> fields. \<open>Base\<close>, \<open>Cap\<close> and
  \<open>Elapsed\<close> are modelled as exact reals: the defaults (50 and 60000), every wait that is
  drawn (a whole number below \<open>2 ^ 63\<close>) and their sums are whole numbers that a
  \<open>float64\<close> holds exactly in every run of practical length, so no rounding is modelled.
  \<open>Attempt\<close> only ever holds a count (it starts at 0, as the comment on the struct asks,
  and is changed by \<open>+= 1.0\<close> and \<open>= 0\<close> alone), so it is a natural number and
  \<open>math.Pow(2.0, fc.Attempt)\<close> is \<open>2 ^ Attempt\<close>.
\<close>

record FailConfig =
  Base :: real
  Cap :: real
  Attempt :: nat
  Elapsed :: real
  MaxRetriesReached :: bool

definition DefaultFailConfig :: FailConfig where
  "DefaultFailConfig =
     \<lparr>Base = 50, Cap = 60000, Attempt = 0, Elapsed = 0, MaxRetriesReached = False\<rparr>"

text \<open>
  What a call can end with other than a return: a Go panic, or a conversion from
  \<open>float64\<close> to an integer type whose value does not fit (the language leaves its result
  to the implementation, so the model stops there).
\<close>

datatype fault =
  IntnInvalidArgument
  | ConversionOutOfRange
  | TypeAssertionFailed
  | IndexOutOfRange

text \<open>
  The part of the machine the backoff acts on: the random source behind \<open>rand.Intn\<close>
  (a stream of raw draws and the position reached in it) and the calls of \<open>time.Sleep\<close>
  made so far, each with its duration in nanoseconds (the unit of \<open>time.Duration\<close>).
\<close>

record runtime =
  rand_src :: "nat \<Rightarrow> nat"
  rand_pos :: nat
  slept :: "int list"

definition Millisecond :: int where
  "Millisecond = 1000000"

text \<open>Arithmetic on \<open>int64\<close> (\<open>time.Duration\<close>) wraps around.\<close>

definition wrap64 :: "int \<Rightarrow> int" where
  "wrap64 x = (x + 2 ^ 63) mod 2 ^ 64 - 2 ^ 63"

text \<open>
  A conversion \<open>int(x)\<close> or \<open>time.Duration(x)\<close> of a \<open>float64\<close>: the fraction is dropped
  (rounding towards zero); \<open>None\<close> when the result does not fit 64 bits.
\<close>

definition float_to_int64 :: "real \<Rightarrow> int option" where
  "float_to_int64 x =
     (let t = (if 0 \<le> x then \<lfloor>x\<rfloor> else \<lceil>x\<rceil>)
      in if - (2 ^ 63) \<le> t \<and> t < 2 ^ 63 then Some t else None)"

text \<open>
  \<open>rand.Intn(n)\<close> panics when \<open>n <= 0\<close> and otherwise returns a number in \<open>[0, n)\<close>.
  Every such number is reached by some raw draw.
\<close>

definition rand_Intn :: "int \<Rightarrow> 'a runtime_scheme \<Rightarrow> fault + (int \<times> 'a runtime_scheme)" where
  "rand_Intn n w =
     (if n \<le> 0 then Inl IntnInvalidArgument
      else Inr (int (rand_src w (rand_pos w)) mod n, w\<lparr>rand_pos := rand_pos w + 1\<rparr>))"

definition time_Sleep :: "int \<Rightarrow> 'a runtime_scheme \<Rightarrow> 'a runtime_scheme" where
  "time_Sleep d w = w\<lparr>slept := slept w @ [d]\<rparr>"

text \<open>
  Line 38 of \<open>backoff.go\<close>, the candidate wait:
  \<open>wait := float64(rand.Intn(int(fc.Base * math.Pow(2.0, fc.Attempt))))\<close>.
\<close>

definition draw_wait :: "FailConfig \<Rightarrow> 'a runtime_scheme \<Rightarrow> fault + (int \<times> 'a runtime_scheme)" where
  "draw_wait fc w =
     (case float_to_int64 (Base fc * 2 ^ Attempt fc) of
        None \<Rightarrow> Inl ConversionOutOfRange
      | Some n \<Rightarrow> rand_Intn n w)"

text \<open>
  Lines 40 to 44: when the wait would pass the cap, sleep
  \<open>time.Duration(wait - (wait + fc.Elapsed - fc.Cap))\<close> (a bare number of nanoseconds)
  and set \<open>Elapsed\<close> to \<open>Cap\<close>. The \<open>if\<close> has no \<open>else\<close> and does not return.
\<close>

definition clamp_to_cap ::
  "int \<Rightarrow> FailConfig \<Rightarrow> 'a runtime_scheme \<Rightarrow> fault + (FailConfig \<times> 'a runtime_scheme)" where
  "clamp_to_cap k fc w =
     (if Elapsed fc + real_of_int k > Cap fc then
        (case float_to_int64 (real_of_int k - (real_of_int k + Elapsed fc - Cap fc)) of
           None \<Rightarrow> Inl ConversionOutOfRange
         | Some d \<Rightarrow> Inr (fc\<lparr>Elapsed := Cap fc\<rparr>, time_Sleep d w))
      else Inr (fc, w))"

text \<open>
  \<open>ExponentialBackoff\<close>, lines 30 to 48. After the clamp, lines 46 and 47 run in every
  case: \<open>time.Sleep(time.Duration(wait) * time.Millisecond)\<close> and \<open>fc.Elapsed += wait\<close>.
\<close>

definition ExponentialBackoff ::
  "FailConfig \<Rightarrow> 'a runtime_scheme \<Rightarrow> fault + (FailConfig \<times> 'a runtime_scheme)" where
  "ExponentialBackoff fc w =
     (if Elapsed fc = Cap fc then Inr (fc\<lparr>MaxRetriesReached := True\<rparr>, w)
      else
        (let fc1 = fc\<lparr>Attempt := Attempt fc + 1\<rparr> in
         case draw_wait fc1 w of
           Inl f \<Rightarrow> Inl f
         | Inr (k, w1) \<Rightarrow>
             (case clamp_to_cap k fc1 w1 of
                Inl f \<Rightarrow> Inl f
              | Inr (fc2, w2) \<Rightarrow>
                  Inr (fc2\<lparr>Elapsed := Elapsed fc2 + real_of_int k\<rparr>,
                       time_Sleep (wrap64 (k * Millisecond)) w2))))"

definition Reset :: "FailConfig \<Rightarrow> FailConfig" where
  "Reset fc = fc\<lparr>Attempt := 0, Elapsed := 0, MaxRetriesReached := False\<rparr>"


section \<open>Tables, queries and keys\<close>

text \<open>
  \<open>Table\<close>, \<open>Query\<close>, \<open>createAV\<close> and \<open>keyMaker\<close> are in the file that defines the
  table and query objects.
\<close>

record Table =
  TableName :: string
  PrimaryKeyName :: string
  PrimaryKeyType :: string
  SortKeyName :: string
  SortKeyType :: string

text \<open>
  A Go map with string keys is an association list with distinct keys, built with
  \<^const>\<open>AList.update\<close>; the order of its entries has no meaning. A \<open>nil\<close> map, where the
  code tells it from an empty one, is \<open>None\<close>.

  \<open>dynamodb.AttributeValue\<close> is a struct with one field for each kind of value; each
  setter used by \<open>createAV\<close> fills one of them, so a value is one constructor. Pointers to
  attribute values may be \<open>nil\<close> (\<open>None\<close>).
\<close>

type_synonym byte = "8 word"

datatype AttributeValue =
  AV_NULL bool
  | AV_B "byte list"
  | AV_BOOL bool
  | AV_BS "byte list list"
  | AV_L "AttributeValue option list"
  | AV_M "(string \<times> AttributeValue option) list"
  | AV_N string
  | AV_NS "string list"
  | AV_S string

type_synonym attrmap = "(string \<times> AttributeValue option) list"

text \<open>
  A value of type \<open>interface{}\<close> as \<open>createAV\<close> inspects it: the dynamic types it tests
  for, and \<open>GoOther\<close> for every other one.
\<close>

datatype go_value =
  GoNil
  | GoBytes "byte list"
  | GoBool bool
  | GoByteSlices "byte list list"
  | GoAVList "AttributeValue option list"
  | GoAVMap "(string \<times> AttributeValue option) list"
  | GoInt int
  | GoInts "int list"
  | GoString string
  | GoOther

record Query =
  PrimaryValue :: go_value
  SortValue :: go_value
  UpdateFieldName :: string
  UpdateValue :: go_value

definition CreateNewQueryObj :: "go_value \<Rightarrow> go_value \<Rightarrow> Query" where
  "CreateNewQueryObj pval sval =
     \<lparr>PrimaryValue = pval, SortValue = sval, UpdateFieldName = [], UpdateValue = GoNil\<rparr>"

text \<open>\<open>strconv.Itoa\<close>: the decimal text of an integer.\<close>

definition digit_char :: "nat \<Rightarrow> char" where
  "digit_char d = char_of (48 + d)"

function nat_dec :: "nat \<Rightarrow> string" where
  "nat_dec n = (if n < 10 then [digit_char n] else nat_dec (n div 10) @ [digit_char (n mod 10)])"
  by pat_completeness auto
termination
  by (relation "measure id") auto

definition Itoa :: "int \<Rightarrow> string" where
  "Itoa i = (if i < 0 then CHR ''-'' # nat_dec (nat (- i)) else nat_dec (nat i))"

fun createAV :: "go_value \<Rightarrow> AttributeValue option" where
  "createAV GoNil = Some (AV_NULL True)"
| "createAV (GoBytes b) = Some (AV_B b)"
| "createAV (GoBool b) = Some (AV_BOOL b)"
| "createAV (GoByteSlices bs) = Some (AV_BS bs)"
| "createAV (GoAVList l) = Some (AV_L l)"
| "createAV (GoAVMap m) = Some (AV_M m)"
| "createAV (GoInt i) = Some (AV_N (Itoa i))"
| "createAV (GoInts is) = Some (AV_NS (map Itoa is))"
| "createAV (GoString s) = Some (AV_S s)"
| "createAV GoOther = None"

definition keyMaker :: "Query \<Rightarrow> Table \<Rightarrow> attrmap" where
  "keyMaker q t =
     AList.update (SortKeyName t) (createAV (SortValue q))
       (AList.update (PrimaryKeyName t) (createAV (PrimaryValue q)) [])"

section \<open>The provider and its requests\<close>

text \<open>
  Go's \<open>error\<close> values: an \<open>awserr.Error\<close> with its code and message, any other error
  (the transport's, the marshaller's) with its text, and the result of
  \<open>fmt.Errorf(format, err)\<close> with its format and the error it prints (\<open>None\<close> when the
  format has no argument). A \<open>nil\<close> error is \<open>None\<close> of \<open>error option\<close>.
\<close>

datatype error =
  AwsError string string
  | OtherError string
  | Errorf string "error option"

definition ErrCodeInternalServerError :: string where
  "ErrCodeInternalServerError = ''InternalServerError''"

text \<open>
  A \<open>dynamodb.WriteRequest\<close> points to a put request (its \<open>Item\<close>) or to a delete
  request (its \<open>Key\<close>); a \<open>nil\<close> pointer is \<open>None\<close>.
\<close>

record WriteRequest =
  PutRequest :: "attrmap option"
  DeleteRequest :: "attrmap option"

record KeysAndAttributes =
  Keys :: "attrmap list"

text \<open>
  \<open>BatchWriteItemInput\<close> and \<open>BatchGetItemInput\<close> both carry one map, \<open>RequestItems\<close>,
  from table names to the requests for that table.
\<close>

record 'v BatchItemInput =
  RequestItems :: "(string \<times> 'v) list"

type_synonym BatchWriteItemInput = "WriteRequest list BatchItemInput"
type_synonym BatchGetItemInput = "KeysAndAttributes BatchItemInput"

record BatchWriteItemOutput =
  UnprocessedItems :: "(string \<times> WriteRequest list) list option"

record BatchGetItemOutput =
  Responses :: "(string \<times> attrmap list) list option"
  UnprocessedKeys :: "(string \<times> KeysAndAttributes) list option"

text \<open>\<open>len(m)\<close> of a map that may be \<open>nil\<close>.\<close>

definition len_map :: "(string \<times> 'v) list option \<Rightarrow> nat" where
  "len_map m = (case m of None \<Rightarrow> 0 | Some al \<Rightarrow> length (remdups (map fst al)))"

text \<open>\<open>m[k]\<close> where the values are slices: the \<open>nil\<close> slice when the key is absent.\<close>

definition index_map :: "(string \<times> 'v list) list option \<Rightarrow> string \<Rightarrow> 'v list" where
  "index_map m k =
     (case m of None \<Rightarrow> []
      | Some al \<Rightarrow> (case map_of al k of None \<Rightarrow> [] | Some v \<Rightarrow> v))"

text \<open>
  The DynamoDB client \<open>svc\<close> is outside the repository: it is a state \<open>'p\<close> and a
  function from that state and a request to the output, the error and the next state. The
  SDK always returns an output struct, also beside an error. The world extends the
  runtime of the backoff with the provider's state and the requests submitted so far.
\<close>

record ('p, 'q) world = runtime +
  provider :: 'p
  submitted :: "'q list"

type_synonym ('p, 'q, 'r) client = "'p \<Rightarrow> 'q \<Rightarrow> ('r \<times> error option) \<times> 'p"

text \<open>
  \<open>batchWriteUtil\<close> and \<open>batchGetUtil\<close> call the client, print the error and pass both
  results on; printing is not modelled.
\<close>

definition batchWriteUtil ::
  "('p, BatchWriteItemInput, BatchWriteItemOutput) client \<Rightarrow> BatchWriteItemInput \<Rightarrow>
   ('p, BatchWriteItemInput) world \<Rightarrow>
   (BatchWriteItemOutput \<times> error option) \<times> ('p, BatchWriteItemInput) world" where
  "batchWriteUtil svc input w =
     (case svc (provider w) input of
        (res, p') \<Rightarrow> (res, w\<lparr>provider := p', submitted := submitted w @ [input]\<rparr>))"

definition batchGetUtil ::
  "('p, BatchGetItemInput, BatchGetItemOutput) client \<Rightarrow> BatchGetItemInput \<Rightarrow>
   ('p, BatchGetItemInput) world \<Rightarrow>
   (BatchGetItemOutput \<times> error option) \<times> ('p, BatchGetItemInput) world" where
  "batchGetUtil svc input w =
     (case svc (provider w) input of
        (res, p') \<Rightarrow> (res, w\<lparr>provider := p', submitted := submitted w @ [input]\<rparr>))"

text \<open>
  What a block of a loop body does next: return from the function with a value, stop
  with a fault, or fall through to the statement after it.
\<close>

datatype ('a, 'b) flow = Return 'a | Fault fault | Continue 'b


section \<open>\<open>BatchWriteCreate\<close>\<close>

text \<open>
  The batch functions are in the file of the CRUD operations (\<open>db.go\<close>); the line
  numbers given with them are lines of that file.

  The outcome of a batch write: the \<open>error\<close> the function returns (\<open>None\<close> for \<open>nil\<close>),
  the \<open>FailConfig\<close> behind the pointer \<open>fc\<close> and the world, both as the call leaves them.
\<close>

type_synonym 'p write_outcome =
  "error option \<times> FailConfig \<times> ('p, BatchWriteItemInput) world"

text \<open>
  Lines 244 to 260: one put request for each item that is not \<open>nil\<close>, in order. The
  marshaller \<open>dynamodbattribute.MarshalMap\<close> is the parameter \<open>marshal\<close>.
\<close>

fun put_requests ::
  "('i \<Rightarrow> error + attrmap) \<Rightarrow> 'i option list \<Rightarrow> WriteRequest list \<Rightarrow> error + WriteRequest list" where
  "put_requests marshal [] wrs = Inr wrs"
| "put_requests marshal (None # items) wrs = put_requests marshal items wrs"
| "put_requests marshal (Some item # items) wrs =
     (case marshal item of
        Inl err \<Rightarrow> Inl (Errorf ''BatchWriteCreate failed: %v'' (Some err))
      | Inr av \<Rightarrow>
          put_requests marshal items (wrs @ [\<lparr>PutRequest = Some av, DeleteRequest = None\<rparr>]))"

text \<open>Lines 274 to 294, the block under \<open>if err != nil\<close>.\<close>

definition BatchWriteCreate_on_error ::
  "BatchWriteItemOutput \<Rightarrow> error \<Rightarrow> BatchWriteItemInput \<Rightarrow> FailConfig \<Rightarrow>
   ('p, BatchWriteItemInput) world \<Rightarrow>
   ('p write_outcome, BatchWriteItemInput \<times> FailConfig \<times> ('p, BatchWriteItemInput) world) flow" where
  "BatchWriteCreate_on_error result err input fc w =
     (case err of
        AwsError code message \<Rightarrow>
          if code \<noteq> ErrCodeInternalServerError then Return (Some err, fc, w)
          else
            (case UnprocessedItems result of
               None \<Rightarrow> Continue (input, fc, w)
             | Some unprocessed \<Rightarrow>
                 (case ExponentialBackoff fc w of
                    Inl f \<Rightarrow> Fault f
                  | Inr (fc', w') \<Rightarrow>
                      if MaxRetriesReached fc' = True
                      then Return
                        (Some (Errorf ''BatchWriteCreate failed: Max retries exceeded: %v'' (Some err)),
                         fc', w')
                      else Continue (\<lparr>RequestItems = unprocessed\<rparr>, fc', w')))
      | _ \<Rightarrow> Fault TypeAssertionFailed)"

text \<open>
  Lines 272 to 301, the loop \<open>for { ... }\<close>: it may run for ever, which is the value
  \<open>None\<close>.
\<close>

partial_function (option) BatchWriteCreate_loop ::
  "('p, BatchWriteItemInput, BatchWriteItemOutput) client \<Rightarrow> BatchWriteItemInput \<Rightarrow>
   FailConfig \<Rightarrow> ('p, BatchWriteItemInput) world \<Rightarrow> (fault + 'p write_outcome) option" where
  "BatchWriteCreate_loop svc input fc w =
     (case batchWriteUtil svc input w of
        ((result, err), w1) \<Rightarrow>
          (case (case err of
                   None \<Rightarrow> Continue (input, fc, w1)
                 | Some e \<Rightarrow> BatchWriteCreate_on_error result e input fc w1) of
             Return r \<Rightarrow> Some (Inr r)
           | Fault f \<Rightarrow> Some (Inl f)
           | Continue (input', fc', w') \<Rightarrow>
               if len_map (UnprocessedItems result) = 0
               then Some (Inr (None, Reset fc', w'))
               else BatchWriteCreate_loop svc input' fc' w'))"

definition BatchWriteCreate ::
  "('i \<Rightarrow> error + attrmap) \<Rightarrow> ('p, BatchWriteItemInput, BatchWriteItemOutput) client \<Rightarrow>
   Table \<Rightarrow> FailConfig \<Rightarrow> 'i option list \<Rightarrow> ('p, BatchWriteItemInput) world \<Rightarrow>
   (fault + 'p write_outcome) option" where
  "BatchWriteCreate marshal svc t fc items w =
     (if length items > 25 then Some (Inr (Some (Errorf ''too many items to process'' None), fc, w))
      else
        (case put_requests marshal items [] of
           Inl e \<Rightarrow> Some (Inr (Some e, fc, w))
         | Inr wrs \<Rightarrow>
             BatchWriteCreate_loop svc \<lparr>RequestItems = AList.update (TableName t) wrs []\<rparr> fc w))"

section \<open>\<open>BatchWriteDelete\<close>\<close>

text \<open>Lines 317 to 326: one delete request for each query that is not \<open>nil\<close>.\<close>

fun delete_requests :: "Table \<Rightarrow> Query option list \<Rightarrow> WriteRequest list \<Rightarrow> WriteRequest list" where
  "delete_requests t [] wrs = wrs"
| "delete_requests t (None # queries) wrs = delete_requests t queries wrs"
| "delete_requests t (Some q # queries) wrs =
     delete_requests t queries (wrs @ [\<lparr>PutRequest = None, DeleteRequest = Some (keyMaker q t)\<rparr>])"

text \<open>Lines 340 to 358.\<close>

definition BatchWriteDelete_on_error ::
  "BatchWriteItemOutput \<Rightarrow> error \<Rightarrow> BatchWriteItemInput \<Rightarrow> FailConfig \<Rightarrow>
   ('p, BatchWriteItemInput) world \<Rightarrow>
   ('p write_outcome, BatchWriteItemInput \<times> FailConfig \<times> ('p, BatchWriteItemInput) world) flow" where
  "BatchWriteDelete_on_error result err input fc w =
     (case err of
        AwsError code message \<Rightarrow>
          if code \<noteq> ErrCodeInternalServerError
          then Return (Some (Errorf ''BatchWriteDelete failed: %v'' (Some err)), fc, w)
          else
            (case UnprocessedItems result of
               None \<Rightarrow> Continue (input, fc, w)
             | Some unprocessed \<Rightarrow>
                 (case ExponentialBackoff fc w of
                    Inl f \<Rightarrow> Fault f
                  | Inr (fc', w') \<Rightarrow>
                      if MaxRetriesReached fc' = True
                      then Return
                        (Some (Errorf ''BatchWriteDelete failed: Max retries exceeded: %v'' (Some err)),
                         fc', w')
                      else Continue (\<lparr>RequestItems = unprocessed\<rparr>, fc', w')))
      | _ \<Rightarrow> Fault TypeAssertionFailed)"

text \<open>Lines 338 to 365.\<close>

partial_function (option) BatchWriteDelete_loop ::
  "('p, BatchWriteItemInput, BatchWriteItemOutput) client \<Rightarrow> BatchWriteItemInput \<Rightarrow>
   FailConfig \<Rightarrow> ('p, BatchWriteItemInput) world \<Rightarrow> (fault + 'p write_outcome) option" where
  "BatchWriteDelete_loop svc input fc w =
     (case batchWriteUtil svc input w of
        ((result, err), w1) \<Rightarrow>
          (case (case err of
                   None \<Rightarrow> Continue (input, fc, w1)
                 | Some e \<Rightarrow> BatchWriteDelete_on_error result e input fc w1) of
             Return r \<Rightarrow> Some (Inr r)
           | Fault f \<Rightarrow> Some (Inl f)
           | Continue (input', fc', w') \<Rightarrow>
               if len_map (UnprocessedItems result) = 0
               then Some (Inr (None, Reset fc', w'))
               else BatchWriteDelete_loop svc input' fc' w'))"

definition BatchWriteDelete ::
  "('p, BatchWriteItemInput, BatchWriteItemOutput) client \<Rightarrow> Table \<Rightarrow> FailConfig \<Rightarrow>
   Query option list \<Rightarrow> ('p, BatchWriteItemInput) world \<Rightarrow> (fault + 'p write_outcome) option" where
  "BatchWriteDelete svc t fc queries w =
     (if length queries > 25
      then Some (Inr (Some (Errorf ''too many items to process'' None), fc, w))
      else
        BatchWriteDelete_loop svc
          \<lparr>RequestItems = AList.update (TableName t) (delete_requests t queries []) []\<rparr> fc w)"


section \<open>\<open>BatchGet\<close>\<close>

text \<open>
  \<open>refObjs\<close> holds pointers (``non-nil pointers of the same type'', says the comment on
  the function): a pointer is an address, and the objects behind the addresses are the
  heap \<open>nat \<Rightarrow> 'o\<close>. \<open>dynamodbattribute.UnmarshalMap(r, &ref)\<close>, where \<open>ref\<close> is the
  interface value that holds such a pointer, decodes into the object the pointer refers
  to; it is the parameter \<open>unmarshal\<close>, from the record and the object as it is to the
  error and the object as the decoder leaves it. The slice the function returns holds
  the same pointers.
\<close>

type_synonym 'o heap = "nat \<Rightarrow> 'o"

type_synonym ('p, 'o) get_outcome =
  "(nat list option \<times> error option) \<times> 'o heap \<times> FailConfig \<times> ('p, BatchGetItemInput) world"

text \<open>Lines 390 to 397: one key for each query that is not \<open>nil\<close>.\<close>

fun get_keys :: "Table \<Rightarrow> Query option list \<Rightarrow> attrmap list \<Rightarrow> attrmap list" where
  "get_keys t [] keys = keys"
| "get_keys t (None # queries) keys = get_keys t queries keys"
| "get_keys t (Some q # queries) keys = get_keys t queries (keys @ [keyMaker q t])"

text \<open>
  Lines 412 to 438. The first test returns for every code other than the internal
  server error, so the two tests after it never succeed; they are kept as written.
\<close>

definition BatchGet_on_error ::
  "BatchGetItemOutput \<Rightarrow> error \<Rightarrow> BatchGetItemInput \<Rightarrow> FailConfig \<Rightarrow>
   ('p, BatchGetItemInput) world \<Rightarrow>
   ((nat list option \<times> error option) \<times> FailConfig \<times> ('p, BatchGetItemInput) world,
    BatchGetItemInput \<times> FailConfig \<times> ('p, BatchGetItemInput) world) flow" where
  "BatchGet_on_error result err input fc w =
     (case err of
        AwsError code message \<Rightarrow>
          if code \<noteq> ErrCodeInternalServerError
          then Return ((None, Some (Errorf ''BatchGet failed: %v'' (Some err))), fc, w)
          else if code = ''ValidationException'' then Return ((None, Some err), fc, w)
          else if code = ''RequestError'' then Return ((None, Some err), fc, w)
          else
            (case UnprocessedKeys result of
               None \<Rightarrow> Continue (input, fc, w)
             | Some unprocessed \<Rightarrow>
                 (case ExponentialBackoff fc w of
                    Inl f \<Rightarrow> Fault f
                  | Inr (fc', w') \<Rightarrow>
                      if MaxRetriesReached fc' = True
                      then Return
                        ((None,
                          Some (Errorf ''BatchGet failed: Max retries exceeded: %v'' (Some err))),
                         fc', w')
                      else Continue (\<lparr>RequestItems = unprocessed\<rparr>, fc', w')))
      | _ \<Rightarrow> Fault TypeAssertionFailed)"

text \<open>
  Lines 440 to 448, \<open>for i, r := range result.Responses[t.TableName]\<close>: the record at
  index \<open>i\<close> of the response is decoded through \<open>refObjs[i]\<close>, which panics when \<open>i\<close> is
  out of range, and the pointer is appended to \<open>items\<close>.
\<close>

fun unmarshal_responses ::
  "(attrmap \<Rightarrow> 'o \<Rightarrow> error option \<times> 'o) \<Rightarrow> nat list \<Rightarrow> nat \<Rightarrow> attrmap list \<Rightarrow>
   'o heap \<Rightarrow> nat list \<Rightarrow>
   ((nat list option \<times> error option) \<times> 'o heap, 'o heap \<times> nat list) flow" where
  "unmarshal_responses unmarshal refObjs i [] heap items = Continue (heap, items)"
| "unmarshal_responses unmarshal refObjs i (r # rs) heap items =
     (if length refObjs \<le> i then Fault IndexOutOfRange
      else
        (let ref = refObjs ! i in
         case unmarshal r (heap ref) of
           (Some e, obj) \<Rightarrow>
             Return
               ((None, Some (Errorf ''BatchGet failed: Failed to unmarshal record, %v'' (Some e))),
                heap(ref := obj))
         | (None, obj) \<Rightarrow>
             unmarshal_responses unmarshal refObjs (i + 1) rs (heap(ref := obj)) (items @ [ref])))"

text \<open>Lines 410 to 455.\<close>

partial_function (option) BatchGet_loop ::
  "(attrmap \<Rightarrow> 'o \<Rightarrow> error option \<times> 'o) \<Rightarrow>
   ('p, BatchGetItemInput, BatchGetItemOutput) client \<Rightarrow> Table \<Rightarrow> nat list \<Rightarrow>
   BatchGetItemInput \<Rightarrow> FailConfig \<Rightarrow> ('p, BatchGetItemInput) world \<Rightarrow> 'o heap \<Rightarrow> nat list \<Rightarrow>
   (fault + ('p, 'o) get_outcome) option" where
  "BatchGet_loop unmarshal svc t refObjs input fc w heap items =
     (case batchGetUtil svc input w of
        ((result, err), w1) \<Rightarrow>
          (case (case err of
                   None \<Rightarrow> Continue (input, fc, w1)
                 | Some e \<Rightarrow> BatchGet_on_error result e input fc w1) of
             Return (r, fc', w') \<Rightarrow> Some (Inr (r, heap, fc', w'))
           | Fault f \<Rightarrow> Some (Inl f)
           | Continue (input', fc', w') \<Rightarrow>
               (case unmarshal_responses unmarshal refObjs 0
                       (index_map (Responses result) (TableName t)) heap items of
                  Return (r, heap') \<Rightarrow> Some (Inr (r, heap', fc', w'))
                | Fault f \<Rightarrow> Some (Inl f)
                | Continue (heap', items') \<Rightarrow>
                    if len_map (UnprocessedKeys result) = 0
                    then Some (Inr ((Some items', None), heap', Reset fc', w'))
                    else BatchGet_loop unmarshal svc t refObjs input' fc' w' heap' items')))"

definition BatchGet ::
  "(attrmap \<Rightarrow> 'o \<Rightarrow> error option \<times> 'o) \<Rightarrow>
   ('p, BatchGetItemInput, BatchGetItemOutput) client \<Rightarrow> Table \<Rightarrow> FailConfig \<Rightarrow>
   Query option list \<Rightarrow> nat list \<Rightarrow> ('p, BatchGetItemInput) world \<Rightarrow> 'o heap \<Rightarrow>
   (fault + ('p, 'o) get_outcome) option" where
  "BatchGet unmarshal svc t fc queries refObjs w heap =
     (if length queries > 100
      then Some (Inr ((None, Some (Errorf ''too many items to process'' None)), heap, fc, w))
      else if length queries \<noteq> length refObjs
      then Some (Inr ((None,
                       Some (Errorf ''number of queries does not match number of reference objects''
                               None)),
                      heap, fc, w))
      else
        BatchGet_loop unmarshal svc t refObjs
          \<lparr>RequestItems = AList.update (TableName t) \<lparr>Keys = get_keys t queries []\<rparr> []\<rparr>
          fc w heap [])"


section \<open>One round of each loop\<close>

text \<open>
  One pass through the body of each \<open>for { ... }\<close>, from the call of the provider to the
  test of the unprocessed items: it ends the function (\<open>Return\<close>, \<open>Fault\<close>) or hands the
  request, the \<open>FailConfig\<close> and the world (for \<open>BatchGet\<close> also the heap and the items)
  to the next round (\<open>Continue\<close>). Each loop is its round, repeated; this is proved below.
\<close>

definition BatchWriteCreate_round ::
  "('p, BatchWriteItemInput, BatchWriteItemOutput) client \<Rightarrow> BatchWriteItemInput \<Rightarrow>
   FailConfig \<Rightarrow> ('p, BatchWriteItemInput) world \<Rightarrow>
   ('p write_outcome, BatchWriteItemInput \<times> FailConfig \<times> ('p, BatchWriteItemInput) world) flow" where
  "BatchWriteCreate_round svc input fc w =
     (case batchWriteUtil svc input w of
        ((result, err), w1) \<Rightarrow>
          (case (case err of
                   None \<Rightarrow> Continue (input, fc, w1)
                 | Some e \<Rightarrow> BatchWriteCreate_on_error result e input fc w1) of
             Return r \<Rightarrow> Return r
           | Fault f \<Rightarrow> Fault f
           | Continue (input', fc', w') \<Rightarrow>
               if len_map (UnprocessedItems result) = 0
               then Return (None, Reset fc', w')
               else Continue (input', fc', w')))"

definition BatchWriteDelete_round ::
  "('p, BatchWriteItemInput, BatchWriteItemOutput) client \<Rightarrow> BatchWriteItemInput \<Rightarrow>
   FailConfig \<Rightarrow> ('p, BatchWriteItemInput) world \<Rightarrow>
   ('p write_outcome, BatchWriteItemInput \<times> FailConfig \<times> ('p, BatchWriteItemInput) world) flow" where
  "BatchWriteDelete_round svc input fc w =
     (case batchWriteUtil svc input w of
        ((result, err), w1) \<Rightarrow>
          (case (case err of
                   None \<Rightarrow> Continue (input, fc, w1)
                 | Some e \<Rightarrow> BatchWriteDelete_on_error result e input fc w1) of
             Return r \<Rightarrow> Return r
           | Fault f \<Rightarrow> Fault f
           | Continue (input', fc', w') \<Rightarrow>
               if len_map (UnprocessedItems result) = 0
               then Return (None, Reset fc', w')
               else Continue (input', fc', w')))"

definition BatchGet_round ::
  "(attrmap \<Rightarrow> 'o \<Rightarrow> error option \<times> 'o) \<Rightarrow>
   ('p, BatchGetItemInput, BatchGetItemOutput) client \<Rightarrow> Table \<Rightarrow> nat list \<Rightarrow>
   BatchGetItemInput \<Rightarrow> FailConfig \<Rightarrow> ('p, BatchGetItemInput) world \<Rightarrow> 'o heap \<Rightarrow> nat list \<Rightarrow>
   (('p, 'o) get_outcome,
    BatchGetItemInput \<times> FailConfig \<times> ('p, BatchGetItemInput) world \<times> 'o heap \<times> nat list) flow" where
  "BatchGet_round unmarshal svc t refObjs input fc w heap items =
     (case batchGetUtil svc input w of
        ((result, err), w1) \<Rightarrow>
          (case (case err of
                   None \<Rightarrow> Continue (input, fc, w1)
                 | Some e \<Rightarrow> BatchGet_on_error result e input fc w1) of
             Return (r, fc', w') \<Rightarrow> Return (r, heap, fc', w')
           | Fault f \<Rightarrow> Fault f
           | Continue (input', fc', w') \<Rightarrow>
               (case unmarshal_responses unmarshal refObjs 0
                       (index_map (Responses result) (TableName t)) heap items of
                  Return (r, heap') \<Rightarrow> Return (r, heap', fc', w')
                | Fault f \<Rightarrow> Fault f
                | Continue (heap', items') \<Rightarrow>
                    if len_map (UnprocessedKeys result) = 0
                    then Return ((Some items', None), heap', Reset fc', w')
                    else Continue (input', fc', w', heap', items'))))"

section \<open>Concrete runs\<close>

text \<open>
  A table, worlds and clients on which the functions are run below. The provider's
  state is the number of calls it has answered.
\<close>

definition demo_table :: Table where
  "demo_table =
     \<lparr>TableName = ''movies'', PrimaryKeyName = ''Year'', PrimaryKeyType = ''S'',
      SortKeyName = ''Title'', SortKeyType = ''S''\<rparr>"

definition constant_draws :: "nat \<Rightarrow> nat \<Rightarrow> nat" where
  "constant_draws r n = r"

definition world0 :: "nat \<Rightarrow> (nat, 'q) world" where
  "world0 r =
     \<lparr>rand_src = constant_draws r, rand_pos = 0, slept = [], provider = 0, submitted = []\<rparr>"

text \<open>A backoff state some retries into a call.\<close>

definition midway :: FailConfig where
  "midway = DefaultFailConfig\<lparr>Attempt := 2, Elapsed := 75\<rparr>"

definition marshal_year :: "string \<Rightarrow> error + attrmap" where
  "marshal_year y = Inr [(''Year'', Some (AV_S y))]"

definition put_of :: "string \<Rightarrow> WriteRequest" where
  "put_of y = \<lparr>PutRequest = Some [(''Year'', Some (AV_S y))], DeleteRequest = None\<rparr>"

definition query_of :: "string \<Rightarrow> Query" where
  "query_of y = CreateNewQueryObj (GoString y) GoNil"

text \<open>
  A write client that answers its first call with no error and the given unprocessed
  items, and every later call with no error and nothing unprocessed.
\<close>

definition partial_then_done ::
  "(string \<times> WriteRequest list) list \<Rightarrow> (nat, BatchWriteItemInput, BatchWriteItemOutput) client" where
  "partial_then_done unprocessed n input =
     ((\<lparr>UnprocessedItems = (if n = 0 then Some unprocessed else None)\<rparr>, None), n + 1)"

text \<open>
  A write client that answers its first call with the internal server error and the
  given unprocessed items, and every later call with a validation error.
\<close>

definition busy_then_rejected ::
  "(string \<times> WriteRequest list) list \<Rightarrow> (nat, BatchWriteItemInput, BatchWriteItemOutput) client" where
  "busy_then_rejected unprocessed n input =
     (if n = 0
      then ((\<lparr>UnprocessedItems = Some unprocessed\<rparr>,
             Some (AwsError ErrCodeInternalServerError ''busy'')), n + 1)
      else ((\<lparr>UnprocessedItems = None\<rparr>, Some (AwsError ''ValidationException'' ''rejected'')),
            n + 1))"

text \<open>
  Clients that answer their first call with the internal server error and the given
  unprocessed items or keys: the write client then answers with no error and nothing
  unprocessed, the read client with a validation error.
\<close>

definition busy_then_done ::
  "(string \<times> WriteRequest list) list \<Rightarrow> (nat, BatchWriteItemInput, BatchWriteItemOutput) client" where
  "busy_then_done unprocessed n input =
     (if n = 0
      then ((\<lparr>UnprocessedItems = Some unprocessed\<rparr>,
             Some (AwsError ErrCodeInternalServerError ''busy'')), n + 1)
      else ((\<lparr>UnprocessedItems = None\<rparr>, None), n + 1))"

definition get_busy_then_rejected ::
  "(string \<times> KeysAndAttributes) list \<Rightarrow> (nat, BatchGetItemInput, BatchGetItemOutput) client" where
  "get_busy_then_rejected unprocessed n input =
     (if n = 0
      then ((\<lparr>Responses = None, UnprocessedKeys = Some unprocessed\<rparr>,
             Some (AwsError ErrCodeInternalServerError ''busy'')), n + 1)
      else ((\<lparr>Responses = None, UnprocessedKeys = None\<rparr>,
             Some (AwsError ''ValidationException'' ''rejected'')), n + 1))"

text \<open>Clients that answer every call with the same classified error.\<close>

definition write_rejected ::
  "string \<Rightarrow> (nat, BatchWriteItemInput, BatchWriteItemOutput) client" where
  "write_rejected code n input =
     ((\<lparr>UnprocessedItems = None\<rparr>, Some (AwsError code ''rejected'')), n + 1)"

definition get_rejected ::
  "string \<Rightarrow> (nat, BatchGetItemInput, BatchGetItemOutput) client" where
  "get_rejected code n input =
     ((\<lparr>Responses = None, UnprocessedKeys = None\<rparr>, Some (AwsError code ''rejected'')), n + 1)"

text \<open>A read client that answers every call with the given records, in the given order.\<close>

definition answer_with ::
  "attrmap list \<Rightarrow> (nat, BatchGetItemInput, BatchGetItemOutput) client" where
  "answer_with records n input =
     ((\<lparr>Responses = Some [(''movies'', records)], UnprocessedKeys = None\<rparr>, None), n + 1)"

text \<open>
  Destination objects that are attribute maps: a decoder that stores the record, and one
  that rejects every record.
\<close>

definition empty_heap :: "attrmap heap" where
  "empty_heap a = []"

definition unmarshal_store :: "attrmap \<Rightarrow> attrmap \<Rightarrow> error option \<times> attrmap" where
  "unmarshal_store r obj = (None, r)"

definition unmarshal_reject :: "attrmap \<Rightarrow> attrmap \<Rightarrow> error option \<times> attrmap" where
  "unmarshal_reject r obj = (Some (OtherError ''cannot unmarshal''), obj)"

section \<open>Properties of the backoff\<close>

lemma draw_wait_bound:
  assumes "draw_wait fc w = Inr (k, w')"
  shows "0 \<le> k \<and> real_of_int k < Base fc * 2 ^ Attempt fc"
proof -
  from assms obtain n where n: "float_to_int64 (Base fc * 2 ^ Attempt fc) = Some n"
    and r: "rand_Intn n w = Inr (k, w')"
    by (auto simp: draw_wait_def split: option.splits)
  from r have k: "0 \<le> k" "k < n"
    by (auto simp: rand_Intn_def split: if_splits)
  then have "0 < n" by simp
  with n have "real_of_int n \<le> Base fc * 2 ^ Attempt fc"
    by (auto simp: float_to_int64_def Let_def split: if_splits)
  with k show ?thesis by simp
qed

lemma ExponentialBackoff_world:
  "ExponentialBackoff fc w = Inr (fc', w') \<Longrightarrow>
   submitted w' = submitted w \<and> provider w' = provider w"
  by (auto simp: ExponentialBackoff_def draw_wait_def clamp_to_cap_def rand_Intn_def
      time_Sleep_def Let_def split: if_splits option.splits sum.splits prod.splits)

lemma ExponentialBackoff_Attempt_mono:
  "ExponentialBackoff fc w = Inr (fc', w') \<Longrightarrow> Attempt fc \<le> Attempt fc'"
  by (auto simp: ExponentialBackoff_def clamp_to_cap_def Let_def
      split: if_splits option.splits sum.splits prod.splits)

text \<open>
  Claim C6. When \<open>Elapsed\<close> equals \<open>Cap\<close> on entry, \<open>ExponentialBackoff\<close> returns at once:
  it sets \<open>MaxRetriesReached\<close> and changes nothing else. \<open>Attempt\<close> and \<open>Elapsed\<close> keep
  their values, and the world is the one it was given, so no sleep was made and no random
  number drawn.
\<close>

theorem ExponentialBackoff_at_cap:
  "Elapsed fc = Cap fc \<Longrightarrow>
   ExponentialBackoff fc w = Inr (fc\<lparr>MaxRetriesReached := True\<rparr>, w)"
  by (simp add: ExponentialBackoff_def)

theorem ExponentialBackoff_at_cap_witness:
  "Elapsed (DefaultFailConfig\<lparr>Attempt := 9, Elapsed := 60000\<rparr>)
     = Cap (DefaultFailConfig\<lparr>Attempt := 9, Elapsed := 60000\<rparr>)
   \<and> ExponentialBackoff (DefaultFailConfig\<lparr>Attempt := 9, Elapsed := 60000\<rparr>)
        (world0 5 :: (nat, BatchWriteItemInput) world)
      = Inr (\<lparr>Base = 50, Cap = 60000, Attempt = 9, Elapsed = 60000, MaxRetriesReached = True\<rparr>,
             world0 5)"
  using ExponentialBackoff_at_cap
    [of "DefaultFailConfig\<lparr>Attempt := 9, Elapsed := 60000\<rparr>"
        "world0 5 :: (nat, BatchWriteItemInput) world"]
  by (simp add: DefaultFailConfig_def)

text \<open>
  Claim C1. With \<open>Cap = 100\<close>, \<open>Elapsed = 60\<close> and a wait of 70 drawn, the wait passes
  the cap. The call then sleeps 40 nanoseconds, sets \<open>Elapsed\<close> to 100, and goes on to
  lines 46 and 47: it sleeps the whole 70 milliseconds and leaves \<open>Elapsed\<close> at 170,
  above the cap.
\<close>

theorem ExponentialBackoff_passes_cap:
  "ExponentialBackoff
     \<lparr>Base = 50, Cap = 100, Attempt = 0, Elapsed = 60, MaxRetriesReached = False\<rparr>
     (world0 70 :: (nat, BatchWriteItemInput) world)
   = Inr (\<lparr>Base = 50, Cap = 100, Attempt = 1, Elapsed = 170, MaxRetriesReached = False\<rparr>,
          world0 70\<lparr>rand_pos := 1, slept := [40, 70000000]\<rparr>)"
  by (simp add: ExponentialBackoff_def draw_wait_def clamp_to_cap_def rand_Intn_def
      time_Sleep_def float_to_int64_def wrap64_def Millisecond_def world0_def constant_draws_def)

section \<open>The request builders and the loops\<close>








text \<open>
  The loop over the records of one response: when every record decodes and the slots it
  reaches are distinct, the record at index \<open>j\<close> ends in the slot at index \<open>i + j\<close>, the
  other objects are untouched and the slots are appended to \<open>items\<close> in that order.
\<close>

lemma unmarshal_responses_by_position:
  "i + length rs \<le> length refObjs \<Longrightarrow>
   distinct (take (length rs) (drop i refObjs)) \<Longrightarrow>
   \<forall>j < length rs. fst (unmarshal (rs ! j) (heap (refObjs ! (i + j)))) = None \<Longrightarrow>
   \<exists>heap'. unmarshal_responses unmarshal refObjs i rs heap items
              = Continue (heap', items @ take (length rs) (drop i refObjs))
          \<and> (\<forall>j < length rs. heap' (refObjs ! (i + j)) = snd (unmarshal (rs ! j) (heap (refObjs ! (i + j)))))
          \<and> (\<forall>a. a \<notin> set (take (length rs) (drop i refObjs)) \<longrightarrow> heap' a = heap a)"
proof (induction rs arbitrary: i heap items)
  case Nil
  then show ?case by simp
next
  case (Cons r rs)
  let ?ref = "refObjs ! i"
  from Cons.prems(1) have i: "i < length refObjs" by simp
  then have dr: "drop i refObjs = ?ref # drop (Suc i) refObjs"
    by (simp add: Cons_nth_drop_Suc)
  from Cons.prems(3) have ok0: "fst (unmarshal r (heap ?ref)) = None"
    by (metis add.right_neutral length_greater_0_conv list.discI nth_Cons_0)
  then obtain obj where u: "unmarshal r (heap ?ref) = (None, obj)"
    by (cases "unmarshal r (heap ?ref)") auto
  let ?heap1 = "heap(?ref := obj)"
  from Cons.prems(2) dr have notin: "?ref \<notin> set (take (length rs) (drop (Suc i) refObjs))"
    and dist: "distinct (take (length rs) (drop (Suc i) refObjs))" by auto
  have same: "\<And>j. j < length rs \<Longrightarrow> refObjs ! (Suc i + j) \<noteq> ?ref"
  proof -
    fix j assume j: "j < length rs"
    with Cons.prems(1) have "take (length rs) (drop (Suc i) refObjs) ! j = refObjs ! (Suc i + j)"
      by simp
    moreover from j Cons.prems(1) have "j < length (take (length rs) (drop (Suc i) refObjs))" by simp
    ultimately have "refObjs ! (Suc i + j) \<in> set (take (length rs) (drop (Suc i) refObjs))"
      by (metis nth_mem)
    with notin show "refObjs ! (Suc i + j) \<noteq> ?ref" by auto
  qed
  have ok: "\<forall>j < length rs. fst (unmarshal (rs ! j) (?heap1 (refObjs ! (Suc i + j)))) = None"
  proof (intro allI impI)
    fix j assume j: "j < length rs"
    from Cons.prems(3) have "Suc j < length (r # rs) \<longrightarrow> fst (unmarshal ((r # rs) ! Suc j) (heap (refObjs ! (i + Suc j)))) = None"
      by blast
    with j same[OF j] show "fst (unmarshal (rs ! j) (?heap1 (refObjs ! (Suc i + j)))) = None" by simp
  qed
  from Cons.prems(1) have len: "Suc i + length rs \<le> length refObjs" by simp
  from Cons.IH[OF len dist ok, of "items @ [?ref]"] obtain heap' where
    h1: "unmarshal_responses unmarshal refObjs (Suc i) rs ?heap1 (items @ [?ref])
           = Continue (heap', (items @ [?ref]) @ take (length rs) (drop (Suc i) refObjs))"
    and h2: "\<forall>j < length rs. heap' (refObjs ! (Suc i + j)) = snd (unmarshal (rs ! j) (?heap1 (refObjs ! (Suc i + j))))"
    and h3: "\<forall>a. a \<notin> set (take (length rs) (drop (Suc i) refObjs)) \<longrightarrow> heap' a = ?heap1 a"
    by blast
  have r1: "unmarshal_responses unmarshal refObjs i (r # rs) heap items
      = Continue (heap', items @ take (length (r # rs)) (drop i refObjs))"
    using i u h1 dr by simp
  have r2: "\<forall>j < length (r # rs). heap' (refObjs ! (i + j)) = snd (unmarshal ((r # rs) ! j) (heap (refObjs ! (i + j))))"
  proof (intro allI impI)
    fix j assume j: "j < length (r # rs)"
    show "heap' (refObjs ! (i + j)) = snd (unmarshal ((r # rs) ! j) (heap (refObjs ! (i + j))))"
    proof (cases j)
      case 0
      with h3 notin u show ?thesis by simp
    next
      case (Suc k)
      with j have k: "k < length rs" by simp
      with h2 same[OF k] Suc show ?thesis by simp
    qed
  qed
  have r3: "\<forall>a. a \<notin> set (take (length (r # rs)) (drop i refObjs)) \<longrightarrow> heap' a = heap a"
    using h3 dr by auto
  from r1 r2 r3 show ?case by blast
qed

lemma unmarshal_responses_Return:
  "unmarshal_responses unmarshal refObjs i rs heap items = Return (r, heap') \<Longrightarrow> snd r \<noteq> None"
  by (induction unmarshal refObjs i rs heap items rule: unmarshal_responses.induct)
     (auto simp: Let_def split: if_splits prod.splits option.splits)

text \<open>
  What every returning run of a loop keeps: the request it is entered with is the next
  one submitted; a run that returns an error leaves \<open>Attempt\<close> at least where it was; a
  run that returns no error has reset the \<open>FailConfig\<close>. The block under
  \<open>if err != nil\<close> submits nothing and never lowers \<open>Attempt\<close>.
\<close>

lemma BatchWriteCreate_on_error_effect:
  "(BatchWriteCreate_on_error result e input fc w = Return (r, fc', w') \<longrightarrow>
      submitted w' = submitted w \<and> Attempt fc \<le> Attempt fc' \<and> r \<noteq> None)
   \<and> (BatchWriteCreate_on_error result e input fc w = Continue (input', fc', w') \<longrightarrow>
      submitted w' = submitted w \<and> Attempt fc \<le> Attempt fc')"
  by (auto simp: BatchWriteCreate_on_error_def
      dest: ExponentialBackoff_world ExponentialBackoff_Attempt_mono
      split: error.splits if_splits option.splits sum.splits prod.splits)

lemma BatchWriteCreate_loop_invariant:
  assumes "BatchWriteCreate_loop svc input fc w = Some y"
  shows "\<forall>r fc' w'. y = Inr (r, fc', w') \<longrightarrow>
           (\<exists>rest. submitted w' = submitted w @ input # rest)
           \<and> (r \<noteq> None \<longrightarrow> Attempt fc \<le> Attempt fc')
           \<and> (r = None \<longrightarrow> fc' = Reset fc')"
proof (rule BatchWriteCreate_loop.raw_induct
    [where P = "\<lambda>svc input fc w y. \<forall>r fc' w'. y = Inr (r, fc', w') \<longrightarrow>
                  (\<exists>rest. submitted w' = submitted w @ input # rest)
                  \<and> (r \<noteq> None \<longrightarrow> Attempt fc \<le> Attempt fc')
                  \<and> (r = None \<longrightarrow> fc' = Reset fc')", OF _ assms], goal_cases)
  case (1 loop svc input fc w y)
  note IH = 1(1) and hyp = 1(2)
  obtain result err p' where s: "svc (provider w) input = ((result, err), p')"
    by (metis prod.exhaust)
  let ?w1 = "w\<lparr>provider := p', submitted := submitted w @ [input]\<rparr>"
  let ?flow = "case err of None \<Rightarrow> Continue (input, fc, ?w1)
                 | Some e \<Rightarrow> BatchWriteCreate_on_error result e input fc ?w1"
  from hyp s have body: "(case ?flow of
             Return r \<Rightarrow> Some (Inr r)
           | Fault f \<Rightarrow> Some (Inl f)
           | Continue (input', fc', w') \<Rightarrow>
               if len_map (UnprocessedItems result) = 0
               then Some (Inr (None, Reset fc', w'))
               else loop svc input' fc' w') = Some y"
    by (simp add: batchWriteUtil_def)
  show ?case
  proof (intro allI impI)
    fix r fc' w' assume yr: "y = Inr (r, fc', w')"
    show "(\<exists>rest. submitted w' = submitted w @ input # rest)
           \<and> (r \<noteq> None \<longrightarrow> Attempt fc \<le> Attempt fc')
           \<and> (r = None \<longrightarrow> fc' = Reset fc')"
    proof (cases ?flow)
      case (Return x)
      with body yr have x: "x = (r, fc', w')" by simp
      with Return have "submitted w' = submitted ?w1 \<and> Attempt fc \<le> Attempt fc' \<and> r \<noteq> None"
        using BatchWriteCreate_on_error_effect[of result _ input fc ?w1 r fc' w']
        by (auto split: option.splits)
      then show ?thesis by auto
    next
      case (Fault f)
      with body yr show ?thesis by simp
    next
      case (Continue c)
      obtain input2 fc2 w2 where c: "c = (input2, fc2, w2)" by (metis prod.exhaust)
      with Continue have sub: "submitted w2 = submitted ?w1 \<and> Attempt fc \<le> Attempt fc2"
        using BatchWriteCreate_on_error_effect[of result _ input fc ?w1 _ fc2 w2 input2]
        by (auto split: option.splits)
      show ?thesis
      proof (cases "len_map (UnprocessedItems result) = 0")
        case True
        with body Continue c yr have "w' = w2 \<and> r = None \<and> fc' = Reset fc2" by simp
        with sub show ?thesis by (simp add: Reset_def)
      next
        case False
        with body Continue c have "loop svc input2 fc2 w2 = Some y" by simp
        from IH[OF this] yr obtain rest where "submitted w' = submitted w2 @ input2 # rest"
          and "r \<noteq> None \<longrightarrow> Attempt fc2 \<le> Attempt fc'" and "r = None \<longrightarrow> fc' = Reset fc'"
          by blast
        with sub show ?thesis by auto
      qed
    qed
  qed
qed

lemma BatchWriteDelete_on_error_effect:
  "(BatchWriteDelete_on_error result e input fc w = Return (r, fc', w') \<longrightarrow>
      submitted w' = submitted w \<and> Attempt fc \<le> Attempt fc' \<and> r \<noteq> None)
   \<and> (BatchWriteDelete_on_error result e input fc w = Continue (input', fc', w') \<longrightarrow>
      submitted w' = submitted w \<and> Attempt fc \<le> Attempt fc')"
  by (auto simp: BatchWriteDelete_on_error_def
      dest: ExponentialBackoff_world ExponentialBackoff_Attempt_mono
      split: error.splits if_splits option.splits sum.splits prod.splits)

lemma BatchWriteDelete_loop_invariant:
  assumes "BatchWriteDelete_loop svc input fc w = Some y"
  shows "\<forall>r fc' w'. y = Inr (r, fc', w') \<longrightarrow>
           (\<exists>rest. submitted w' = submitted w @ input # rest)
           \<and> (r \<noteq> None \<longrightarrow> Attempt fc \<le> Attempt fc')
           \<and> (r = None \<longrightarrow> fc' = Reset fc')"
proof (rule BatchWriteDelete_loop.raw_induct
    [where P = "\<lambda>svc input fc w y. \<forall>r fc' w'. y = Inr (r, fc', w') \<longrightarrow>
                  (\<exists>rest. submitted w' = submitted w @ input # rest)
                  \<and> (r \<noteq> None \<longrightarrow> Attempt fc \<le> Attempt fc')
                  \<and> (r = None \<longrightarrow> fc' = Reset fc')", OF _ assms], goal_cases)
  case (1 loop svc input fc w y)
  note IH = 1(1) and hyp = 1(2)
  obtain result err p' where s: "svc (provider w) input = ((result, err), p')"
    by (metis prod.exhaust)
  let ?w1 = "w\<lparr>provider := p', submitted := submitted w @ [input]\<rparr>"
  let ?flow = "case err of None \<Rightarrow> Continue (input, fc, ?w1)
                 | Some e \<Rightarrow> BatchWriteDelete_on_error result e input fc ?w1"
  from hyp s have body: "(case ?flow of
             Return r \<Rightarrow> Some (Inr r)
           | Fault f \<Rightarrow> Some (Inl f)
           | Continue (input', fc', w') \<Rightarrow>
               if len_map (UnprocessedItems result) = 0
               then Some (Inr (None, Reset fc', w'))
               else loop svc input' fc' w') = Some y"
    by (simp add: batchWriteUtil_def)
  show ?case
  proof (intro allI impI)
    fix r fc' w' assume yr: "y = Inr (r, fc', w')"
    show "(\<exists>rest. submitted w' = submitted w @ input # rest)
           \<and> (r \<noteq> None \<longrightarrow> Attempt fc \<le> Attempt fc')
           \<and> (r = None \<longrightarrow> fc' = Reset fc')"
    proof (cases ?flow)
      case (Return x)
      with body yr have x: "x = (r, fc', w')" by simp
      with Return have "submitted w' = submitted ?w1 \<and> Attempt fc \<le> Attempt fc' \<and> r \<noteq> None"
        using BatchWriteDelete_on_error_effect[of result _ input fc ?w1 r fc' w']
        by (auto split: option.splits)
      then show ?thesis by auto
    next
      case (Fault f)
      with body yr show ?thesis by simp
    next
      case (Continue c)
      obtain input2 fc2 w2 where c: "c = (input2, fc2, w2)" by (metis prod.exhaust)
      with Continue have sub: "submitted w2 = submitted ?w1 \<and> Attempt fc \<le> Attempt fc2"
        using BatchWriteDelete_on_error_effect[of result _ input fc ?w1 _ fc2 w2 input2]
        by (auto split: option.splits)
      show ?thesis
      proof (cases "len_map (UnprocessedItems result) = 0")
        case True
        with body Continue c yr have "w' = w2 \<and> r = None \<and> fc' = Reset fc2" by simp
        with sub show ?thesis by (simp add: Reset_def)
      next
        case False
        with body Continue c have "loop svc input2 fc2 w2 = Some y" by simp
        from IH[OF this] yr obtain rest where "submitted w' = submitted w2 @ input2 # rest"
          and "r \<noteq> None \<longrightarrow> Attempt fc2 \<le> Attempt fc'" and "r = None \<longrightarrow> fc' = Reset fc'"
          by blast
        with sub show ?thesis by auto
      qed
    qed
  qed
qed

lemma BatchGet_on_error_effect:
  "(BatchGet_on_error result e input fc w = Return (r, fc', w') \<longrightarrow>
      submitted w' = submitted w \<and> Attempt fc \<le> Attempt fc' \<and> snd r \<noteq> None)
   \<and> (BatchGet_on_error result e input fc w = Continue (input', fc', w') \<longrightarrow>
      submitted w' = submitted w \<and> Attempt fc \<le> Attempt fc')"
  by (auto simp: BatchGet_on_error_def
      dest: ExponentialBackoff_world ExponentialBackoff_Attempt_mono
      split: error.splits if_splits option.splits sum.splits prod.splits)

lemma BatchGet_loop_invariant:
  assumes "BatchGet_loop unmarshal svc t refObjs input fc w heap items = Some y"
  shows "\<forall>r heap' fc' w'. y = Inr (r, heap', fc', w') \<longrightarrow>
           (\<exists>rest. submitted w' = submitted w @ input # rest)
           \<and> (snd r \<noteq> None \<longrightarrow> Attempt fc \<le> Attempt fc')
           \<and> (snd r = None \<longrightarrow> fc' = Reset fc')"
proof (rule BatchGet_loop.raw_induct
    [where P = "\<lambda>unmarshal svc t refObjs input fc w heap items y.
                  \<forall>r heap' fc' w'. y = Inr (r, heap', fc', w') \<longrightarrow>
                  (\<exists>rest. submitted w' = submitted w @ input # rest)
                  \<and> (snd r \<noteq> None \<longrightarrow> Attempt fc \<le> Attempt fc')
                  \<and> (snd r = None \<longrightarrow> fc' = Reset fc')", OF _ assms], goal_cases)
  case (1 loop unmarshal svc t refObjs input fc w heap items y)
  note IH = 1(1) and hyp = 1(2)
  obtain result err p' where s: "svc (provider w) input = ((result, err), p')"
    by (metis prod.exhaust)
  let ?w1 = "w\<lparr>provider := p', submitted := submitted w @ [input]\<rparr>"
  let ?flow = "case err of None \<Rightarrow> Continue (input, fc, ?w1)
                 | Some e \<Rightarrow> BatchGet_on_error result e input fc ?w1"
  let ?um = "unmarshal_responses unmarshal refObjs 0
               (index_map (Responses result) (TableName t)) heap items"
  from hyp s have body: "(case ?flow of
             Return (r, fc', w') \<Rightarrow> Some (Inr (r, heap, fc', w'))
           | Fault f \<Rightarrow> Some (Inl f)
           | Continue (input', fc', w') \<Rightarrow>
               (case ?um of
                  Return (r, heap') \<Rightarrow> Some (Inr (r, heap', fc', w'))
                | Fault f \<Rightarrow> Some (Inl f)
                | Continue (heap', items') \<Rightarrow>
                    if len_map (UnprocessedKeys result) = 0
                    then Some (Inr ((Some items', None), heap', Reset fc', w'))
                    else loop unmarshal svc t refObjs input' fc' w' heap' items')) = Some y"
    by (simp add: batchGetUtil_def)
  show ?case
  proof (intro allI impI)
    fix r heap' fc' w' assume yr: "y = Inr (r, heap', fc', w')"
    show "(\<exists>rest. submitted w' = submitted w @ input # rest)
           \<and> (snd r \<noteq> None \<longrightarrow> Attempt fc \<le> Attempt fc')
           \<and> (snd r = None \<longrightarrow> fc' = Reset fc')"
    proof (cases ?flow)
      case (Return x)
      with body yr have x: "x = (r, fc', w')" by (auto split: prod.splits)
      with Return have "submitted w' = submitted ?w1 \<and> Attempt fc \<le> Attempt fc' \<and> snd r \<noteq> None"
        using BatchGet_on_error_effect[of result _ input fc ?w1 r fc' w']
        by (auto split: option.splits)
      then show ?thesis by auto
    next
      case (Fault f)
      with body yr show ?thesis by simp
    next
      case (Continue c)
      obtain input2 fc2 w2 where c: "c = (input2, fc2, w2)" by (metis prod.exhaust)
      with Continue have sub: "submitted w2 = submitted ?w1 \<and> Attempt fc \<le> Attempt fc2"
        using BatchGet_on_error_effect[of result _ input fc ?w1 _ fc2 w2 input2]
        by (auto split: option.splits)
      show ?thesis
      proof (cases ?um)
        case (Return x)
        obtain r2 heap2 where x: "x = (r2, heap2)" by (metis prod.exhaust)
        with body Continue c yr Return have e: "w' = w2 \<and> fc' = fc2 \<and> r = r2" by simp
        from Return x have "snd r2 \<noteq> None"
          using unmarshal_responses_Return[of unmarshal refObjs 0 _ heap items r2 heap2] by simp
        with e sub show ?thesis by auto
      next
        case (Fault f)
        with body Continue c yr show ?thesis by simp
      next
        case um: (Continue d)
        obtain heap2 items2 where d: "d = (heap2, items2)" by (metis prod.exhaust)
        show ?thesis
        proof (cases "len_map (UnprocessedKeys result) = 0")
          case True
          with body Continue c um d yr have "w' = w2 \<and> snd r = None \<and> fc' = Reset fc2" by auto
          with sub show ?thesis by (simp add: Reset_def)
        next
          case False
          with body Continue c um d
          have "loop unmarshal svc t refObjs input2 fc2 w2 heap2 items2 = Some y" by simp
          from IH[OF this] yr obtain rest where "submitted w' = submitted w2 @ input2 # rest"
            and "snd r \<noteq> None \<longrightarrow> Attempt fc2 \<le> Attempt fc'"
            and "snd r = None \<longrightarrow> fc' = Reset fc'"
            by blast
          with sub show ?thesis by auto
        qed
      qed
    qed
  qed
qed

text \<open>
  Each loop is its round, repeated, and a round that hands over to the next one never
  lowers \<open>Attempt\<close>.
\<close>

lemma BatchWriteCreate_loop_round:
  "BatchWriteCreate_loop svc input fc w =
     (case BatchWriteCreate_round svc input fc w of
        Return r \<Rightarrow> Some (Inr r)
      | Fault f \<Rightarrow> Some (Inl f)
      | Continue (input', fc', w') \<Rightarrow> BatchWriteCreate_loop svc input' fc' w')"
  by (subst BatchWriteCreate_loop.simps)
     (auto simp: BatchWriteCreate_round_def split: prod.splits flow.splits option.splits)

lemma BatchWriteDelete_loop_round:
  "BatchWriteDelete_loop svc input fc w =
     (case BatchWriteDelete_round svc input fc w of
        Return r \<Rightarrow> Some (Inr r)
      | Fault f \<Rightarrow> Some (Inl f)
      | Continue (input', fc', w') \<Rightarrow> BatchWriteDelete_loop svc input' fc' w')"
  by (subst BatchWriteDelete_loop.simps)
     (auto simp: BatchWriteDelete_round_def split: prod.splits flow.splits option.splits)

lemma BatchGet_loop_round:
  "BatchGet_loop unmarshal svc t refObjs input fc w heap items =
     (case BatchGet_round unmarshal svc t refObjs input fc w heap items of
        Return r \<Rightarrow> Some (Inr r)
      | Fault f \<Rightarrow> Some (Inl f)
      | Continue (input', fc', w', heap', items') \<Rightarrow>
          BatchGet_loop unmarshal svc t refObjs input' fc' w' heap' items')"
  by (subst BatchGet_loop.simps)
     (auto simp: BatchGet_round_def split: prod.splits flow.splits option.splits)

lemma BatchWriteCreate_round_Attempt:
  "BatchWriteCreate_round svc input fc w = Continue (input', fc', w') \<Longrightarrow>
   Attempt fc \<le> Attempt fc'"
  using BatchWriteCreate_on_error_effect
  by (fastforce simp: BatchWriteCreate_round_def
      split: prod.splits flow.splits option.splits if_splits)

lemma BatchWriteDelete_round_Attempt:
  "BatchWriteDelete_round svc input fc w = Continue (input', fc', w') \<Longrightarrow>
   Attempt fc \<le> Attempt fc'"
  using BatchWriteDelete_on_error_effect
  by (fastforce simp: BatchWriteDelete_round_def
      split: prod.splits flow.splits option.splits if_splits)

lemma BatchGet_round_Attempt:
  "BatchGet_round unmarshal svc t refObjs input fc w heap items
     = Continue (input', fc', w', heap', items') \<Longrightarrow>
   Attempt fc \<le> Attempt fc'"
  using BatchGet_on_error_effect
  by (fastforce simp: BatchGet_round_def
      split: prod.splits flow.splits option.splits if_splits)

text \<open>
  The two ways a write loop goes round again. After the internal server error with
  unprocessed items it sleeps and submits the unprocessed items. After an answer with no
  error and unprocessed items it submits the request it had.
\<close>

lemma retry_after_server_error:
  assumes "svc (provider w) input = ((result, Some (AwsError ErrCodeInternalServerError message)), p')"
    and "UnprocessedItems result = Some unprocessed"
    and "len_map (Some unprocessed) \<noteq> 0"
    and "ExponentialBackoff fc (w\<lparr>provider := p', submitted := submitted w @ [input]\<rparr>)
           = Inr (fc', w')"
    and "\<not> MaxRetriesReached fc'"
  shows "BatchWriteCreate_loop svc input fc w
           = BatchWriteCreate_loop svc \<lparr>RequestItems = unprocessed\<rparr> fc' w'"
    and "BatchWriteDelete_loop svc input fc w
           = BatchWriteDelete_loop svc \<lparr>RequestItems = unprocessed\<rparr> fc' w'"
  using assms
  by (subst BatchWriteCreate_loop.simps BatchWriteDelete_loop.simps,
      simp add: batchWriteUtil_def BatchWriteCreate_on_error_def BatchWriteDelete_on_error_def)+

lemma retry_without_error:
  assumes "svc (provider w) input = ((result, None), p')"
    and "len_map (UnprocessedItems result) \<noteq> 0"
  shows "BatchWriteCreate_loop svc input fc w
           = BatchWriteCreate_loop svc input fc
               (w\<lparr>provider := p', submitted := submitted w @ [input]\<rparr>)"
    and "BatchWriteDelete_loop svc input fc w
           = BatchWriteDelete_loop svc input fc
               (w\<lparr>provider := p', submitted := submitted w @ [input]\<rparr>)"
  using assms
  by (subst BatchWriteCreate_loop.simps BatchWriteDelete_loop.simps,
      simp add: batchWriteUtil_def)+

text \<open>The same two ways round in \<open>BatchGet\<close>, where the records of the answer are decoded first.\<close>

lemma BatchGet_retry_after_server_error:
  assumes "svc (provider w) input = ((result, Some (AwsError ErrCodeInternalServerError message)), p')"
    and "UnprocessedKeys result = Some unprocessed"
    and "len_map (Some unprocessed) \<noteq> 0"
    and "ExponentialBackoff fc (w\<lparr>provider := p', submitted := submitted w @ [input]\<rparr>)
           = Inr (fc', w')"
    and "\<not> MaxRetriesReached fc'"
    and "unmarshal_responses unmarshal refObjs 0 (index_map (Responses result) (TableName t))
           heap items = Continue (heap', items')"
  shows "BatchGet_loop unmarshal svc t refObjs input fc w heap items
           = BatchGet_loop unmarshal svc t refObjs \<lparr>RequestItems = unprocessed\<rparr> fc' w'
               heap' items'"
  using assms
  by (subst BatchGet_loop.simps)
     (simp add: batchGetUtil_def BatchGet_on_error_def ErrCodeInternalServerError_def)

lemma BatchGet_retry_without_error:
  assumes "svc (provider w) input = ((result, None), p')"
    and "len_map (UnprocessedKeys result) \<noteq> 0"
    and "unmarshal_responses unmarshal refObjs 0 (index_map (Responses result) (TableName t))
           heap items = Continue (heap', items')"
  shows "BatchGet_loop unmarshal svc t refObjs input fc w heap items
           = BatchGet_loop unmarshal svc t refObjs input fc
               (w\<lparr>provider := p', submitted := submitted w @ [input]\<rparr>) heap' items'"
  using assms
  by (subst BatchGet_loop.simps) (simp add: batchGetUtil_def)

section \<open>Runs on concrete inputs\<close>

lemma backoff_run:
  "ExponentialBackoff DefaultFailConfig (world0 70 :: (nat, BatchWriteItemInput) world)
     = Inr (DefaultFailConfig\<lparr>Attempt := 1, Elapsed := 70\<rparr>,
            world0 70\<lparr>rand_pos := 1, slept := [70000000]\<rparr>)"
  by (simp add: ExponentialBackoff_def draw_wait_def clamp_to_cap_def rand_Intn_def
      time_Sleep_def float_to_int64_def wrap64_def Millisecond_def DefaultFailConfig_def
      world0_def constant_draws_def)

lemma create_run_with_retry:
  "BatchWriteCreate marshal_year (busy_then_rejected [(''movies'', [put_of ''1999''])]) demo_table
     DefaultFailConfig [Some ''1997'', Some ''1998'', Some ''1999''] (world0 70)
   = Some (Inr (Some (AwsError ''ValidationException'' ''rejected''),
        DefaultFailConfig\<lparr>Attempt := 1, Elapsed := 70\<rparr>,
        world0 70\<lparr>rand_pos := 1, slept := [70000000], provider := 2,
          submitted :=
            [\<lparr>RequestItems = [(''movies'', [put_of ''1997'', put_of ''1998'', put_of ''1999''])]\<rparr>,
             \<lparr>RequestItems = [(''movies'', [put_of ''1999''])]\<rparr>]\<rparr>))"
  apply (simp add: BatchWriteCreate_def marshal_year_def demo_table_def)
  apply (subst BatchWriteCreate_loop.simps)
  apply (simp add: batchWriteUtil_def busy_then_rejected_def BatchWriteCreate_on_error_def
      len_map_def world0_def ExponentialBackoff_def draw_wait_def clamp_to_cap_def rand_Intn_def
      time_Sleep_def float_to_int64_def wrap64_def Millisecond_def DefaultFailConfig_def
      constant_draws_def put_of_def)
  apply (subst BatchWriteCreate_loop.simps)
  apply (simp add: batchWriteUtil_def busy_then_rejected_def BatchWriteCreate_on_error_def
      ErrCodeInternalServerError_def)
  done


lemma delete_run_with_nil:
  "BatchWriteDelete (partial_then_done []) demo_table midway
     [None, Some (query_of ''1997'')] (world0 0)
   = Some (Inr (None, DefaultFailConfig,
        world0 0\<lparr>provider := 1,
          submitted := [\<lparr>RequestItems = [(''movies'',
             [\<lparr>PutRequest = None,
               DeleteRequest = Some (keyMaker (query_of ''1997'') demo_table)\<rparr>])]\<rparr>]\<rparr>))"
  by (simp add: BatchWriteDelete_def demo_table_def, subst BatchWriteDelete_loop.simps)
     (simp add: batchWriteUtil_def partial_then_done_def world0_def len_map_def
        Reset_def midway_def DefaultFailConfig_def)

lemma get_run_with_nil:
  "BatchGet unmarshal_store (answer_with []) demo_table midway
     [Some (query_of ''1997''), None] [0, 1] (world0 0) empty_heap
   = Some (Inr ((Some [], None), empty_heap, DefaultFailConfig,
        world0 0\<lparr>provider := 1,
          submitted := [\<lparr>RequestItems = [(''movies'',
             \<lparr>Keys = [keyMaker (query_of ''1997'') demo_table]\<rparr>)]\<rparr>]\<rparr>))"
  by (simp add: BatchGet_def demo_table_def, subst BatchGet_loop.simps)
     (simp add: batchGetUtil_def answer_with_def world0_def len_map_def index_map_def
        Reset_def midway_def DefaultFailConfig_def)

lemma create_round_with_retry:
  "BatchWriteCreate_round (busy_then_done [(''movies'', [put_of ''1999''])])
     \<lparr>RequestItems = [(''movies'', [put_of ''1997'', put_of ''1998'', put_of ''1999''])]\<rparr>
     DefaultFailConfig (world0 70)
   = Continue (\<lparr>RequestItems = [(''movies'', [put_of ''1999''])]\<rparr>,
        DefaultFailConfig\<lparr>Attempt := 1, Elapsed := 70\<rparr>,
        world0 70\<lparr>rand_pos := 1, slept := [70000000], provider := 1,
          submitted :=
            [\<lparr>RequestItems = [(''movies'', [put_of ''1997'', put_of ''1998'', put_of ''1999''])]\<rparr>]\<rparr>)"
  by (simp add: BatchWriteCreate_round_def batchWriteUtil_def busy_then_done_def
      BatchWriteCreate_on_error_def len_map_def world0_def ExponentialBackoff_def draw_wait_def
      clamp_to_cap_def rand_Intn_def time_Sleep_def float_to_int64_def wrap64_def
      Millisecond_def DefaultFailConfig_def constant_draws_def)

lemma delete_round_with_retry:
  "BatchWriteDelete_round (busy_then_done [(''movies'', [put_of ''1999''])])
     \<lparr>RequestItems = [(''movies'', [put_of ''1997'', put_of ''1998'', put_of ''1999''])]\<rparr>
     DefaultFailConfig (world0 70)
   = Continue (\<lparr>RequestItems = [(''movies'', [put_of ''1999''])]\<rparr>,
        DefaultFailConfig\<lparr>Attempt := 1, Elapsed := 70\<rparr>,
        world0 70\<lparr>rand_pos := 1, slept := [70000000], provider := 1,
          submitted :=
            [\<lparr>RequestItems = [(''movies'', [put_of ''1997'', put_of ''1998'', put_of ''1999''])]\<rparr>]\<rparr>)"
  by (simp add: BatchWriteDelete_round_def batchWriteUtil_def busy_then_done_def
      BatchWriteDelete_on_error_def len_map_def world0_def ExponentialBackoff_def draw_wait_def
      clamp_to_cap_def rand_Intn_def time_Sleep_def float_to_int64_def wrap64_def
      Millisecond_def DefaultFailConfig_def constant_draws_def)

lemma get_round_with_retry:
  "BatchGet_round unmarshal_store
     (get_busy_then_rejected [(''movies'', \<lparr>Keys = [keyMaker (query_of ''1998'') demo_table]\<rparr>)])
     demo_table [0, 1]
     \<lparr>RequestItems = [(''movies'', \<lparr>Keys = [keyMaker (query_of ''1997'') demo_table,
                                             keyMaker (query_of ''1998'') demo_table]\<rparr>)]\<rparr>
     DefaultFailConfig (world0 70) empty_heap []
   = Continue (\<lparr>RequestItems = [(''movies'', \<lparr>Keys = [keyMaker (query_of ''1998'') demo_table]\<rparr>)]\<rparr>,
        DefaultFailConfig\<lparr>Attempt := 1, Elapsed := 70\<rparr>,
        world0 70\<lparr>rand_pos := 1, slept := [70000000], provider := 1,
          submitted :=
            [\<lparr>RequestItems = [(''movies'', \<lparr>Keys = [keyMaker (query_of ''1997'') demo_table,
                                             keyMaker (query_of ''1998'') demo_table]\<rparr>)]\<rparr>]\<rparr>,
        empty_heap, [])"
  by (simp add: BatchGet_round_def batchGetUtil_def get_busy_then_rejected_def
      BatchGet_on_error_def len_map_def index_map_def world0_def ExponentialBackoff_def
      draw_wait_def clamp_to_cap_def rand_Intn_def time_Sleep_def float_to_int64_def wrap64_def
      Millisecond_def DefaultFailConfig_def constant_draws_def demo_table_def
      ErrCodeInternalServerError_def)

lemma create_run_retry_then_done:
  "BatchWriteCreate marshal_year (busy_then_done [(''movies'', [put_of ''1999''])]) demo_table
     DefaultFailConfig [Some ''1997'', Some ''1998'', Some ''1999''] (world0 70)
   = Some (Inr (None, DefaultFailConfig,
        world0 70\<lparr>rand_pos := 1, slept := [70000000], provider := 2,
          submitted :=
            [\<lparr>RequestItems = [(''movies'', [put_of ''1997'', put_of ''1998'', put_of ''1999''])]\<rparr>,
             \<lparr>RequestItems = [(''movies'', [put_of ''1999''])]\<rparr>]\<rparr>))"
  apply (simp add: BatchWriteCreate_def marshal_year_def demo_table_def)
  apply (subst BatchWriteCreate_loop.simps)
  apply (simp add: batchWriteUtil_def busy_then_done_def BatchWriteCreate_on_error_def
      len_map_def world0_def ExponentialBackoff_def draw_wait_def clamp_to_cap_def rand_Intn_def
      time_Sleep_def float_to_int64_def wrap64_def Millisecond_def DefaultFailConfig_def
      constant_draws_def put_of_def)
  apply (subst BatchWriteCreate_loop.simps)
  apply (simp add: batchWriteUtil_def busy_then_done_def len_map_def Reset_def)
  done

lemma delete_run_rejected:
  "BatchWriteDelete (write_rejected ''ValidationException'') demo_table midway
     [Some (query_of ''1999'')] (world0 0)
   = Some (Inr (Some (Errorf ''BatchWriteDelete failed: %v''
                        (Some (AwsError ''ValidationException'' ''rejected''))), midway,
        world0 0\<lparr>provider := 1,
          submitted := [\<lparr>RequestItems = [(''movies'',
             [\<lparr>PutRequest = None,
               DeleteRequest = Some (keyMaker (query_of ''1999'') demo_table)\<rparr>])]\<rparr>]\<rparr>))"
  by (simp add: BatchWriteDelete_def demo_table_def, subst BatchWriteDelete_loop.simps)
     (simp add: batchWriteUtil_def write_rejected_def BatchWriteDelete_on_error_def world0_def
        ErrCodeInternalServerError_def)

section \<open>Properties of the batch functions\<close>

text \<open>
  Claim C4. A call with more than 25 items (\<open>BatchWriteCreate\<close>,
  \<open>BatchWriteDelete\<close>) or more than 100 queries (\<open>BatchGet\<close>) returns the error
  ``too many items to process''. The \<open>FailConfig\<close>, the heap and the world are the ones
  it was given: the provider was not called (its state and the list of submitted requests
  are unchanged) and nothing slept.
\<close>

theorem oversized_input_fails_first:
  "(25 < length items \<longrightarrow>
      BatchWriteCreate marshal wsvc t fc items w
        = Some (Inr (Some (Errorf ''too many items to process'' None), fc, w)))
   \<and> (25 < length dqueries \<longrightarrow>
      BatchWriteDelete wsvc t fc dqueries w
        = Some (Inr (Some (Errorf ''too many items to process'' None), fc, w)))
   \<and> (100 < length queries \<longrightarrow>
      BatchGet unmarshal gsvc t fc queries refObjs gw heap
        = Some (Inr ((None, Some (Errorf ''too many items to process'' None)), heap, fc, gw)))"
  by (simp add: BatchWriteCreate_def BatchWriteDelete_def BatchGet_def)

theorem oversized_input_fails_first_witness:
  "25 < length (replicate 26 (Some ''1999''))
   \<and> BatchWriteCreate marshal_year (partial_then_done []) demo_table DefaultFailConfig
        (replicate 26 (Some ''1999'')) (world0 0)
      = Some (Inr (Some (Errorf ''too many items to process'' None), DefaultFailConfig, world0 0))
   \<and> 25 < length (replicate 26 (Some (query_of ''1999'')))
   \<and> BatchWriteDelete (partial_then_done []) demo_table DefaultFailConfig
        (replicate 26 (Some (query_of ''1999''))) (world0 0)
      = Some (Inr (Some (Errorf ''too many items to process'' None), DefaultFailConfig, world0 0))
   \<and> 100 < length (replicate 101 (Some (query_of ''1999'')))
   \<and> BatchGet unmarshal_store (answer_with []) demo_table DefaultFailConfig
        (replicate 101 (Some (query_of ''1999''))) (replicate 101 0) (world0 0) empty_heap
      = Some (Inr ((None, Some (Errorf ''too many items to process'' None)), empty_heap,
                   DefaultFailConfig, world0 0))"
  using oversized_input_fails_first
    [where items = "replicate 26 (Some ''1999'')" and marshal = marshal_year
       and wsvc = "partial_then_done []" and t = demo_table and fc = DefaultFailConfig
       and w = "world0 0" and dqueries = "replicate 26 (Some (query_of ''1999''))"
       and queries = "replicate 101 (Some (query_of ''1999''))"
       and unmarshal = unmarshal_store and gsvc = "answer_with []"
       and refObjs = "replicate 101 0" and gw = "world0 0" and heap = empty_heap]
  by simp

text \<open>
  Claim C9. When the number of queries differs from the number of reference objects,
  \<open>BatchGet\<close> returns \<open>nil\<close> and an error, and the world is the one it was given, so
  the provider was not called. The error is the one of the size check when there are more
  than 100 queries, since that check comes first.
\<close>

theorem BatchGet_length_mismatch:
  "length queries \<noteq> length refObjs \<Longrightarrow>
   BatchGet unmarshal svc t fc queries refObjs w heap
     = Some (Inr ((None,
                   Some (if 100 < length queries then Errorf ''too many items to process'' None
                         else Errorf ''number of queries does not match number of reference objects''
                                None)),
                  heap, fc, w))"
  by (simp add: BatchGet_def)

theorem BatchGet_length_mismatch_witness:
  "length [Some (query_of ''1997''), Some (query_of ''1998'')] \<noteq> length [0::nat]
   \<and> BatchGet unmarshal_store (answer_with []) demo_table DefaultFailConfig
        [Some (query_of ''1997''), Some (query_of ''1998'')] [0] (world0 0) empty_heap
      = Some (Inr ((None,
                    Some (Errorf ''number of queries does not match number of reference objects''
                            None)),
                   empty_heap, DefaultFailConfig, world0 0))"
  using BatchGet_length_mismatch
    [where queries = "[Some (query_of ''1997''), Some (query_of ''1998'')]" and refObjs = "[0]"
       and unmarshal = unmarshal_store and svc = "answer_with []" and t = demo_table
       and fc = DefaultFailConfig and w = "world0 0" and heap = empty_heap]
  by simp

text \<open>
  Claim C5, amended. When the provider answers with an \<open>awserr.Error\<close> whose code is
  not the internal server error, the function returns in that round: the world has this
  one request more and is otherwise unchanged (no further call, no sleep), and the
  \<open>FailConfig\<close> is untouched, whatever budget it has left. \<open>BatchWriteCreate\<close> returns
  the provider's error itself. \<open>BatchWriteDelete\<close> returns a new error,
  \<open>fmt.Errorf("BatchWriteDelete failed: %v", err)\<close>. \<open>BatchGet\<close> returns \<open>nil\<close> and an
  error, which for every code other than \<open>ValidationException\<close> and \<open>RequestError\<close> is
  the new error \<open>fmt.Errorf("BatchGet failed: %v", err)\<close>. This holds for the first round
  of each function, entered with the request it built, and for any round of its loop.
\<close>

theorem nonretryable_error_aborts:
  "(length items \<le> 25 \<and> put_requests marshal items [] = Inr wrs
      \<and> wsvc (provider w) \<lparr>RequestItems = [(TableName t, wrs)]\<rparr>
          = ((result, Some (AwsError code message)), p')
      \<and> code \<noteq> ErrCodeInternalServerError \<longrightarrow>
      BatchWriteCreate marshal wsvc t fc items w
        = Some (Inr (Some (AwsError code message), fc,
                     w\<lparr>provider := p',
                       submitted := submitted w @ [\<lparr>RequestItems = [(TableName t, wrs)]\<rparr>]\<rparr>)))
   \<and> (length dqueries \<le> 25
      \<and> wsvc (provider w) \<lparr>RequestItems = [(TableName t, delete_requests t dqueries [])]\<rparr>
          = ((result, Some (AwsError code message)), p')
      \<and> code \<noteq> ErrCodeInternalServerError \<longrightarrow>
      BatchWriteDelete wsvc t fc dqueries w
        = Some (Inr (Some (Errorf ''BatchWriteDelete failed: %v'' (Some (AwsError code message))),
                     fc,
                     w\<lparr>provider := p',
                       submitted := submitted w @
                         [\<lparr>RequestItems = [(TableName t, delete_requests t dqueries [])]\<rparr>]\<rparr>)))
   \<and> (length queries \<le> 100 \<and> length queries = length refObjs
      \<and> gsvc (provider gw) \<lparr>RequestItems = [(TableName t, \<lparr>Keys = get_keys t queries []\<rparr>)]\<rparr>
          = ((gresult, Some (AwsError code message)), gp')
      \<and> code \<noteq> ErrCodeInternalServerError \<longrightarrow>
      (\<exists>e. BatchGet unmarshal gsvc t fc queries refObjs gw heap
             = Some (Inr ((None, Some e), heap, fc,
                          gw\<lparr>provider := gp',
                            submitted := submitted gw @
                              [\<lparr>RequestItems =
                                  [(TableName t, \<lparr>Keys = get_keys t queries []\<rparr>)]\<rparr>]\<rparr>))
           \<and> (code \<noteq> ''ValidationException'' \<and> code \<noteq> ''RequestError'' \<longrightarrow>
                e = Errorf ''BatchGet failed: %v'' (Some (AwsError code message)))))
   \<and> (wsvc (provider w) input = ((result, Some (AwsError code message)), p')
      \<and> code \<noteq> ErrCodeInternalServerError \<longrightarrow>
      BatchWriteCreate_loop wsvc input fc w
        = Some (Inr (Some (AwsError code message), fc,
                     w\<lparr>provider := p', submitted := submitted w @ [input]\<rparr>))
      \<and> BatchWriteDelete_loop wsvc input fc w
        = Some (Inr (Some (Errorf ''BatchWriteDelete failed: %v'' (Some (AwsError code message))),
                     fc, w\<lparr>provider := p', submitted := submitted w @ [input]\<rparr>)))
   \<and> (gsvc (provider gw) ginput = ((gresult, Some (AwsError code message)), gp')
      \<and> code \<noteq> ErrCodeInternalServerError \<longrightarrow>
      (\<exists>e. BatchGet_loop unmarshal gsvc t refObjs ginput fc gw heap gitems
             = Some (Inr ((None, Some e), heap, fc,
                          gw\<lparr>provider := gp', submitted := submitted gw @ [ginput]\<rparr>))
           \<and> (code \<noteq> ''ValidationException'' \<and> code \<noteq> ''RequestError'' \<longrightarrow>
                e = Errorf ''BatchGet failed: %v'' (Some (AwsError code message)))))"
proof -
  have create_loop: "BatchWriteCreate_loop wsvc input fc w
        = Some (Inr (Some (AwsError code message), fc,
                     w\<lparr>provider := p', submitted := submitted w @ [input]\<rparr>))"
    if "wsvc (provider w) input = ((result, Some (AwsError code message)), p')"
      and "code \<noteq> ErrCodeInternalServerError" for input
    using that
    by (subst BatchWriteCreate_loop.simps)
       (simp add: batchWriteUtil_def BatchWriteCreate_on_error_def)
  have delete_loop: "BatchWriteDelete_loop wsvc input fc w
        = Some (Inr (Some (Errorf ''BatchWriteDelete failed: %v'' (Some (AwsError code message))),
                     fc, w\<lparr>provider := p', submitted := submitted w @ [input]\<rparr>))"
    if "wsvc (provider w) input = ((result, Some (AwsError code message)), p')"
      and "code \<noteq> ErrCodeInternalServerError" for input
    using that
    by (subst BatchWriteDelete_loop.simps)
       (simp add: batchWriteUtil_def BatchWriteDelete_on_error_def)
  have get_loop: "BatchGet_loop unmarshal gsvc t refObjs ginput fc gw heap gitems
        = Some (Inr ((None, Some (Errorf ''BatchGet failed: %v'' (Some (AwsError code message)))),
                     heap, fc, gw\<lparr>provider := gp', submitted := submitted gw @ [ginput]\<rparr>))"
    if "gsvc (provider gw) ginput = ((gresult, Some (AwsError code message)), gp')"
      and "code \<noteq> ErrCodeInternalServerError" for ginput gitems
    using that
    by (subst BatchGet_loop.simps) (simp add: batchGetUtil_def BatchGet_on_error_def)
  show ?thesis
  proof (intro conjI impI)
    assume "length items \<le> 25 \<and> put_requests marshal items [] = Inr wrs
      \<and> wsvc (provider w) \<lparr>RequestItems = [(TableName t, wrs)]\<rparr>
          = ((result, Some (AwsError code message)), p')
      \<and> code \<noteq> ErrCodeInternalServerError"
    then show "BatchWriteCreate marshal wsvc t fc items w
        = Some (Inr (Some (AwsError code message), fc,
                     w\<lparr>provider := p',
                       submitted := submitted w @ [\<lparr>RequestItems = [(TableName t, wrs)]\<rparr>]\<rparr>))"
      using create_loop[of "\<lparr>RequestItems = [(TableName t, wrs)]\<rparr>"]
      by (simp add: BatchWriteCreate_def)
  next
    assume "length dqueries \<le> 25
      \<and> wsvc (provider w) \<lparr>RequestItems = [(TableName t, delete_requests t dqueries [])]\<rparr>
          = ((result, Some (AwsError code message)), p')
      \<and> code \<noteq> ErrCodeInternalServerError"
    then show "BatchWriteDelete wsvc t fc dqueries w
        = Some (Inr (Some (Errorf ''BatchWriteDelete failed: %v'' (Some (AwsError code message))),
                     fc,
                     w\<lparr>provider := p',
                       submitted := submitted w @
                         [\<lparr>RequestItems = [(TableName t, delete_requests t dqueries [])]\<rparr>]\<rparr>))"
      using delete_loop[of "\<lparr>RequestItems = [(TableName t, delete_requests t dqueries [])]\<rparr>"]
      by (simp add: BatchWriteDelete_def)
  next
    assume "length queries \<le> 100 \<and> length queries = length refObjs
      \<and> gsvc (provider gw) \<lparr>RequestItems = [(TableName t, \<lparr>Keys = get_keys t queries []\<rparr>)]\<rparr>
          = ((gresult, Some (AwsError code message)), gp')
      \<and> code \<noteq> ErrCodeInternalServerError"
    then show "\<exists>e. BatchGet unmarshal gsvc t fc queries refObjs gw heap
             = Some (Inr ((None, Some e), heap, fc,
                          gw\<lparr>provider := gp',
                            submitted := submitted gw @
                              [\<lparr>RequestItems =
                                  [(TableName t, \<lparr>Keys = get_keys t queries []\<rparr>)]\<rparr>]\<rparr>))
           \<and> (code \<noteq> ''ValidationException'' \<and> code \<noteq> ''RequestError'' \<longrightarrow>
                e = Errorf ''BatchGet failed: %v'' (Some (AwsError code message)))"
      using get_loop[of "\<lparr>RequestItems = [(TableName t, \<lparr>Keys = get_keys t queries []\<rparr>)]\<rparr>" "[]"]
      by (simp add: BatchGet_def)
  next
    assume a: "wsvc (provider w) input = ((result, Some (AwsError code message)), p')
      \<and> code \<noteq> ErrCodeInternalServerError"
    then show "BatchWriteCreate_loop wsvc input fc w
        = Some (Inr (Some (AwsError code message), fc,
                     w\<lparr>provider := p', submitted := submitted w @ [input]\<rparr>))"
      using create_loop[of input] by simp
    from a show "BatchWriteDelete_loop wsvc input fc w
        = Some (Inr (Some (Errorf ''BatchWriteDelete failed: %v'' (Some (AwsError code message))),
                     fc, w\<lparr>provider := p', submitted := submitted w @ [input]\<rparr>))"
      using delete_loop[of input] by simp
  next
    assume "gsvc (provider gw) ginput = ((gresult, Some (AwsError code message)), gp')
      \<and> code \<noteq> ErrCodeInternalServerError"
    then show "\<exists>e. BatchGet_loop unmarshal gsvc t refObjs ginput fc gw heap gitems
             = Some (Inr ((None, Some e), heap, fc,
                          gw\<lparr>provider := gp', submitted := submitted gw @ [ginput]\<rparr>))
           \<and> (code \<noteq> ''ValidationException'' \<and> code \<noteq> ''RequestError'' \<longrightarrow>
                e = Errorf ''BatchGet failed: %v'' (Some (AwsError code message)))"
      using get_loop[of ginput gitems] by simp
  qed
qed

theorem nonretryable_error_aborts_witness:
  "length [Some ''1999''] \<le> 25
   \<and> put_requests marshal_year [Some ''1999''] [] = Inr [put_of ''1999'']
   \<and> write_rejected ''ResourceNotFoundException''
        (provider (world0 0 :: (nat, BatchWriteItemInput) world))
        \<lparr>RequestItems = [(TableName demo_table, [put_of ''1999''])]\<rparr>
      = ((\<lparr>UnprocessedItems = None\<rparr>,
          Some (AwsError ''ResourceNotFoundException'' ''rejected'')), 1)
   \<and> ''ResourceNotFoundException'' \<noteq> ErrCodeInternalServerError
   \<and> BatchWriteCreate marshal_year (write_rejected ''ResourceNotFoundException'') demo_table
        midway [Some ''1999''] (world0 0)
      = Some (Inr (Some (AwsError ''ResourceNotFoundException'' ''rejected''), midway,
           world0 0\<lparr>provider := 1,
             submitted := [\<lparr>RequestItems = [(''movies'', [put_of ''1999''])]\<rparr>]\<rparr>))
   \<and> BatchWriteDelete (write_rejected ''ResourceNotFoundException'') demo_table midway
        [Some (query_of ''1999'')] (world0 0)
      = Some (Inr (Some (Errorf ''BatchWriteDelete failed: %v''
                           (Some (AwsError ''ResourceNotFoundException'' ''rejected''))), midway,
           world0 0\<lparr>provider := 1,
             submitted := [\<lparr>RequestItems = [(''movies'',
                [\<lparr>PutRequest = None,
                  DeleteRequest = Some (keyMaker (query_of ''1999'') demo_table)\<rparr>])]\<rparr>]\<rparr>))
   \<and> length [Some (query_of ''1999'')] = length [0::nat]
   \<and> ''ResourceNotFoundException'' \<noteq> ''ValidationException''
   \<and> ''ResourceNotFoundException'' \<noteq> ''RequestError''
   \<and> BatchGet unmarshal_store (get_rejected ''ResourceNotFoundException'') demo_table midway
        [Some (query_of ''1999'')] [0] (world0 0) empty_heap
      = Some (Inr ((None, Some (Errorf ''BatchGet failed: %v''
                           (Some (AwsError ''ResourceNotFoundException'' ''rejected'')))),
           empty_heap, midway,
           world0 0\<lparr>provider := 1,
             submitted := [\<lparr>RequestItems = [(''movies'',
                \<lparr>Keys = [keyMaker (query_of ''1999'') demo_table]\<rparr>)]\<rparr>]\<rparr>))
   \<and> BatchWriteCreate_loop (write_rejected ''ResourceNotFoundException'')
         \<lparr>RequestItems = [(''movies'', [put_of ''1999''])]\<rparr> midway (world0 0)
      = Some (Inr (Some (AwsError ''ResourceNotFoundException'' ''rejected''), midway,
           world0 0\<lparr>provider := 1,
             submitted := [\<lparr>RequestItems = [(''movies'', [put_of ''1999''])]\<rparr>]\<rparr>))"
  using nonretryable_error_aborts
    [where items = "[Some ''1999'']" and marshal = marshal_year and wrs = "[put_of ''1999'']"
       and wsvc = "write_rejected ''ResourceNotFoundException''" and w = "world0 0"
       and t = demo_table and result = "\<lparr>UnprocessedItems = None\<rparr>"
       and code = "''ResourceNotFoundException''" and message = "''rejected''" and p' = 1
       and fc = midway and dqueries = "[Some (query_of ''1999'')]"
       and queries = "[Some (query_of ''1999'')]" and refObjs = "[0]"
       and gsvc = "get_rejected ''ResourceNotFoundException''" and gw = "world0 0"
       and gresult = "\<lparr>Responses = None, UnprocessedKeys = None\<rparr>" and gp' = 1
       and unmarshal = unmarshal_store and heap = empty_heap
       and input = "\<lparr>RequestItems = [(''movies'', [put_of ''1999''])]\<rparr>"]
  by (simp add: write_rejected_def get_rejected_def world0_def ErrCodeInternalServerError_def
      marshal_year_def put_of_def demo_table_def)

text \<open>
  Claim C5 as stated fails for \<open>BatchWriteDelete\<close>: the provider rejects the request
  with a validation error, and what the function returns is not that error but a new
  error made from its text.
\<close>

theorem BatchWriteDelete_wraps_error:
  "write_rejected ''ValidationException''
       (provider (world0 0 :: (nat, BatchWriteItemInput) world))
       \<lparr>RequestItems = [(''movies'',
          [\<lparr>PutRequest = None,
            DeleteRequest = Some (keyMaker (query_of ''1999'') demo_table)\<rparr>])]\<rparr>
     = ((\<lparr>UnprocessedItems = None\<rparr>, Some (AwsError ''ValidationException'' ''rejected'')), 1)
   \<and> BatchWriteDelete (write_rejected ''ValidationException'') demo_table midway
        [Some (query_of ''1999'')] (world0 0)
      = Some (Inr (Some (Errorf ''BatchWriteDelete failed: %v''
                           (Some (AwsError ''ValidationException'' ''rejected''))), midway,
           world0 0\<lparr>provider := 1,
             submitted := [\<lparr>RequestItems = [(''movies'',
                [\<lparr>PutRequest = None,
                  DeleteRequest = Some (keyMaker (query_of ''1999'') demo_table)\<rparr>])]\<rparr>]\<rparr>))
   \<and> Errorf ''BatchWriteDelete failed: %v'' (Some (AwsError ''ValidationException'' ''rejected''))
      \<noteq> AwsError ''ValidationException'' ''rejected''"
  using delete_run_rejected by (simp add: write_rejected_def world0_def)

text \<open>
  Claim C7, amended. When the request was built within the limit, the first answer of
  the provider carries no error and nothing unprocessed and, for \<open>BatchGet\<close>, every
  record of the answer decodes into its slot, the call returns no error after that one
  provider call, with the \<open>FailConfig\<close> reset: \<open>Attempt\<close> and \<open>Elapsed\<close> are 0 and
  \<open>MaxRetriesReached\<close> is false.
\<close>

theorem clean_first_round_succeeds:
  "(length items \<le> 25 \<and> put_requests marshal items [] = Inr wrs
      \<and> wsvc (provider w) \<lparr>RequestItems = [(TableName t, wrs)]\<rparr> = ((result, None), p')
      \<and> len_map (UnprocessedItems result) = 0 \<longrightarrow>
      BatchWriteCreate marshal wsvc t fc items w
        = Some (Inr (None, Reset fc,
                     w\<lparr>provider := p',
                       submitted := submitted w @ [\<lparr>RequestItems = [(TableName t, wrs)]\<rparr>]\<rparr>)))
   \<and> (length dqueries \<le> 25
      \<and> wsvc (provider w) \<lparr>RequestItems = [(TableName t, delete_requests t dqueries [])]\<rparr>
          = ((result, None), p')
      \<and> len_map (UnprocessedItems result) = 0 \<longrightarrow>
      BatchWriteDelete wsvc t fc dqueries w
        = Some (Inr (None, Reset fc,
                     w\<lparr>provider := p',
                       submitted := submitted w @
                         [\<lparr>RequestItems = [(TableName t, delete_requests t dqueries [])]\<rparr>]\<rparr>)))
   \<and> (length queries \<le> 100 \<and> length queries = length refObjs
      \<and> gsvc (provider gw) \<lparr>RequestItems = [(TableName t, \<lparr>Keys = get_keys t queries []\<rparr>)]\<rparr>
          = ((gresult, None), gp')
      \<and> len_map (UnprocessedKeys gresult) = 0
      \<and> unmarshal_responses unmarshal refObjs 0 (index_map (Responses gresult) (TableName t))
            heap [] = Continue (heap', items') \<longrightarrow>
      BatchGet unmarshal gsvc t fc queries refObjs gw heap
        = Some (Inr ((Some items', None), heap', Reset fc,
                     gw\<lparr>provider := gp',
                       submitted := submitted gw @
                         [\<lparr>RequestItems = [(TableName t, \<lparr>Keys = get_keys t queries []\<rparr>)]\<rparr>]\<rparr>)))
   \<and> Attempt (Reset fc) = 0 \<and> Elapsed (Reset fc) = 0 \<and> MaxRetriesReached (Reset fc) = False"
proof (intro conjI impI)
  assume "length items \<le> 25 \<and> put_requests marshal items [] = Inr wrs
      \<and> wsvc (provider w) \<lparr>RequestItems = [(TableName t, wrs)]\<rparr> = ((result, None), p')
      \<and> len_map (UnprocessedItems result) = 0"
  then show "BatchWriteCreate marshal wsvc t fc items w
        = Some (Inr (None, Reset fc,
                     w\<lparr>provider := p',
                       submitted := submitted w @ [\<lparr>RequestItems = [(TableName t, wrs)]\<rparr>]\<rparr>))"
    by (simp add: BatchWriteCreate_def, subst BatchWriteCreate_loop.simps)
       (simp add: batchWriteUtil_def)
next
  assume "length dqueries \<le> 25
      \<and> wsvc (provider w) \<lparr>RequestItems = [(TableName t, delete_requests t dqueries [])]\<rparr>
          = ((result, None), p')
      \<and> len_map (UnprocessedItems result) = 0"
  then show "BatchWriteDelete wsvc t fc dqueries w
        = Some (Inr (None, Reset fc,
                     w\<lparr>provider := p',
                       submitted := submitted w @
                         [\<lparr>RequestItems = [(TableName t, delete_requests t dqueries [])]\<rparr>]\<rparr>))"
    by (simp add: BatchWriteDelete_def, subst BatchWriteDelete_loop.simps)
       (simp add: batchWriteUtil_def)
next
  assume "length queries \<le> 100 \<and> length queries = length refObjs
      \<and> gsvc (provider gw) \<lparr>RequestItems = [(TableName t, \<lparr>Keys = get_keys t queries []\<rparr>)]\<rparr>
          = ((gresult, None), gp')
      \<and> len_map (UnprocessedKeys gresult) = 0
      \<and> unmarshal_responses unmarshal refObjs 0 (index_map (Responses gresult) (TableName t))
            heap [] = Continue (heap', items')"
  then show "BatchGet unmarshal gsvc t fc queries refObjs gw heap
        = Some (Inr ((Some items', None), heap', Reset fc,
                     gw\<lparr>provider := gp',
                       submitted := submitted gw @
                         [\<lparr>RequestItems = [(TableName t, \<lparr>Keys = get_keys t queries []\<rparr>)]\<rparr>]\<rparr>))"
    by (simp add: BatchGet_def, subst BatchGet_loop.simps) (simp add: batchGetUtil_def)
qed (simp_all add: Reset_def)

theorem clean_first_round_succeeds_witness:
  "length [Some ''1997'', Some ''1998''] \<le> 25
   \<and> put_requests marshal_year [Some ''1997'', Some ''1998''] []
      = Inr [put_of ''1997'', put_of ''1998'']
   \<and> partial_then_done [] (provider (world0 0 :: (nat, BatchWriteItemInput) world))
        \<lparr>RequestItems = [(TableName demo_table, [put_of ''1997'', put_of ''1998''])]\<rparr>
      = ((\<lparr>UnprocessedItems = Some []\<rparr>, None), 1)
   \<and> len_map (UnprocessedItems \<lparr>UnprocessedItems = Some []\<rparr>) = 0
   \<and> unmarshal_responses unmarshal_store [0] 0 [keyMaker (query_of ''1997'') demo_table]
        empty_heap []
      = Continue (empty_heap(0 := keyMaker (query_of ''1997'') demo_table), [0])
   \<and> BatchWriteCreate marshal_year (partial_then_done []) demo_table midway
        [Some ''1997'', Some ''1998''] (world0 0)
      = Some (Inr (None, DefaultFailConfig,
                   world0 0\<lparr>provider := 1,
                     submitted := [\<lparr>RequestItems = [(''movies'', [put_of ''1997'', put_of ''1998''])]\<rparr>]\<rparr>))
   \<and> BatchWriteDelete (partial_then_done []) demo_table midway
        [Some (query_of ''1997'')] (world0 0)
      = Some (Inr (None, DefaultFailConfig,
                   world0 0\<lparr>provider := 1,
                     submitted := [\<lparr>RequestItems = [(''movies'',
                        [\<lparr>PutRequest = None,
                          DeleteRequest = Some (keyMaker (query_of ''1997'') demo_table)\<rparr>])]\<rparr>]\<rparr>))
   \<and> BatchGet unmarshal_store
        (answer_with [keyMaker (query_of ''1997'') demo_table]) demo_table midway
        [Some (query_of ''1997'')] [0] (world0 0) empty_heap
      = Some (Inr ((Some [0], None), empty_heap(0 := keyMaker (query_of ''1997'') demo_table),
                   DefaultFailConfig,
                   world0 0\<lparr>provider := 1,
                     submitted := [\<lparr>RequestItems = [(''movies'',
                        \<lparr>Keys = [keyMaker (query_of ''1997'') demo_table]\<rparr>)]\<rparr>]\<rparr>))"
  using clean_first_round_succeeds
    [where items = "[Some ''1997'', Some ''1998'']" and marshal = marshal_year
       and wrs = "[put_of ''1997'', put_of ''1998'']" and wsvc = "partial_then_done []"
       and w = "world0 0" and t = demo_table and result = "\<lparr>UnprocessedItems = Some []\<rparr>"
       and p' = 1 and fc = midway and dqueries = "[Some (query_of ''1997'')]"
       and queries = "[Some (query_of ''1997'')]" and refObjs = "[0]"
       and gsvc = "answer_with [keyMaker (query_of ''1997'') demo_table]" and gw = "world0 0"
       and gresult = "\<lparr>Responses = Some [(''movies'', [keyMaker (query_of ''1997'') demo_table])],
                        UnprocessedKeys = None\<rparr>"
       and gp' = 1 and unmarshal = unmarshal_store and heap = empty_heap
       and heap' = "empty_heap(0 := keyMaker (query_of ''1997'') demo_table)" and items' = "[0]"]
  by (simp add: marshal_year_def put_of_def partial_then_done_def answer_with_def world0_def
      demo_table_def len_map_def index_map_def unmarshal_store_def midway_def Reset_def
      DefaultFailConfig_def)

text \<open>
  Claim C7 as stated fails for \<open>BatchGet\<close>: here the first answer has no error and
  nothing unprocessed, but its record does not decode. The call returns an error after
  the one provider call and the \<open>FailConfig\<close> is left as it was, \<open>Attempt = 2\<close> and
  \<open>Elapsed = 75\<close>.
\<close>

theorem BatchGet_unmarshal_failure:
  "answer_with [keyMaker (query_of ''1997'') demo_table]
       (provider (world0 0 :: (nat, BatchGetItemInput) world))
       \<lparr>RequestItems = [(''movies'', \<lparr>Keys = [keyMaker (query_of ''1997'') demo_table]\<rparr>)]\<rparr>
     = ((\<lparr>Responses = Some [(''movies'', [keyMaker (query_of ''1997'') demo_table])],
          UnprocessedKeys = None\<rparr>, None), 1)
   \<and> BatchGet unmarshal_reject
        (answer_with [keyMaker (query_of ''1997'') demo_table]) demo_table midway
        [Some (query_of ''1997'')] [0] (world0 0) empty_heap
      = Some (Inr ((None,
                    Some (Errorf ''BatchGet failed: Failed to unmarshal record, %v''
                            (Some (OtherError ''cannot unmarshal'')))),
                   empty_heap(0 := []), midway,
                   world0 0\<lparr>provider := 1,
                     submitted := [\<lparr>RequestItems = [(''movies'',
                        \<lparr>Keys = [keyMaker (query_of ''1997'') demo_table]\<rparr>)]\<rparr>]\<rparr>))
   \<and> Attempt midway = 2 \<and> Elapsed midway = 75"
  apply (simp add: BatchGet_def)
  apply (subst BatchGet_loop.simps)
  apply (simp add: batchGetUtil_def answer_with_def world0_def demo_table_def index_map_def
      unmarshal_reject_def midway_def DefaultFailConfig_def empty_heap_def fun_upd_idem_iff)
  done



text \<open>
  Claim C2. Three items are written; the provider answers the first request with no
  error and the third item unprocessed, and the second request with nothing unprocessed.
  The second request submitted is the whole first request again, not the one
  unprocessed item, and no backoff ran between the two.
\<close>

theorem retry_resubmits_whole_request:
  "partial_then_done [(''movies'', [put_of ''1999''])]
       (provider (world0 0 :: (nat, BatchWriteItemInput) world))
       \<lparr>RequestItems = [(''movies'', [put_of ''1997'', put_of ''1998'', put_of ''1999''])]\<rparr>
     = ((\<lparr>UnprocessedItems = Some [(''movies'', [put_of ''1999''])]\<rparr>, None), 1)
   \<and> BatchWriteCreate marshal_year (partial_then_done [(''movies'', [put_of ''1999''])])
        demo_table DefaultFailConfig [Some ''1997'', Some ''1998'', Some ''1999''] (world0 0)
      = Some (Inr (None, DefaultFailConfig,
           world0 0\<lparr>provider := 2,
             submitted :=
               [\<lparr>RequestItems = [(''movies'', [put_of ''1997'', put_of ''1998'', put_of ''1999''])]\<rparr>,
                \<lparr>RequestItems = [(''movies'', [put_of ''1997'', put_of ''1998'', put_of ''1999''])]\<rparr>]\<rparr>))
   \<and> \<lparr>RequestItems = [(''movies'', [put_of ''1997'', put_of ''1998'', put_of ''1999''])]\<rparr>
      \<noteq> \<lparr>RequestItems = [(''movies'', [put_of ''1999''])]\<rparr>"
proof (intro conjI)
  show "partial_then_done [(''movies'', [put_of ''1999''])]
       (provider (world0 0 :: (nat, BatchWriteItemInput) world))
       \<lparr>RequestItems = [(''movies'', [put_of ''1997'', put_of ''1998'', put_of ''1999''])]\<rparr>
     = ((\<lparr>UnprocessedItems = Some [(''movies'', [put_of ''1999''])]\<rparr>, None), 1)"
    by (simp add: partial_then_done_def world0_def)
  show "BatchWriteCreate marshal_year (partial_then_done [(''movies'', [put_of ''1999''])])
        demo_table DefaultFailConfig [Some ''1997'', Some ''1998'', Some ''1999''] (world0 0)
      = Some (Inr (None, DefaultFailConfig,
           world0 0\<lparr>provider := 2,
             submitted :=
               [\<lparr>RequestItems = [(''movies'', [put_of ''1997'', put_of ''1998'', put_of ''1999''])]\<rparr>,
                \<lparr>RequestItems = [(''movies'', [put_of ''1997'', put_of ''1998'', put_of ''1999''])]\<rparr>]\<rparr>))"
    apply (simp add: BatchWriteCreate_def marshal_year_def demo_table_def)
    apply (subst BatchWriteCreate_loop.simps)
    apply (simp add: batchWriteUtil_def partial_then_done_def world0_def len_map_def)
    apply (subst BatchWriteCreate_loop.simps)
    apply (simp add: batchWriteUtil_def partial_then_done_def world0_def len_map_def Reset_def
        DefaultFailConfig_def put_of_def)
    done
  show "\<lparr>RequestItems = [(''movies'', [put_of ''1997'', put_of ''1998'', put_of ''1999''])]\<rparr>
      \<noteq> \<lparr>RequestItems = [(''movies'', [put_of ''1999''])]\<rparr>"
    by simp
qed

text \<open>
  Claim C3, amended. In a \<open>BatchGet\<close> call answered in one round (no error, nothing
  unprocessed) with no more records than slots, distinct slots and records that all
  decode, the record at index \<open>j\<close> of the response is decoded into the slot at index
  \<open>j\<close>, whatever its key, the other objects are untouched, and the call returns the first
  slots in order, one for each record. So the slots follow the order of the keys only
  when the provider lists the records in that order.
\<close>

theorem BatchGet_fills_slots_by_position:
  assumes "length queries \<le> 100" and "length queries = length refObjs"
    and "svc (provider w) \<lparr>RequestItems = [(TableName t, \<lparr>Keys = get_keys t queries []\<rparr>)]\<rparr>
           = ((result, None), p')"
    and "len_map (UnprocessedKeys result) = 0"
    and "rs = index_map (Responses result) (TableName t)"
    and "length rs \<le> length refObjs"
    and "distinct (take (length rs) refObjs)"
    and "\<forall>j < length rs. fst (unmarshal (rs ! j) (heap (refObjs ! j))) = None"
  shows "\<exists>heap'. BatchGet unmarshal svc t fc queries refObjs w heap
             = Some (Inr ((Some (take (length rs) refObjs), None), heap', Reset fc,
                   w\<lparr>provider := p',
                     submitted := submitted w @
                       [\<lparr>RequestItems = [(TableName t, \<lparr>Keys = get_keys t queries []\<rparr>)]\<rparr>]\<rparr>))
           \<and> (\<forall>j < length rs. heap' (refObjs ! j) = snd (unmarshal (rs ! j) (heap (refObjs ! j))))
           \<and> (\<forall>a. a \<notin> set (take (length rs) refObjs) \<longrightarrow> heap' a = heap a)"
proof -
  from assms(6-8) unmarshal_responses_by_position[of 0 rs refObjs unmarshal heap "[]"]
  obtain heap' where u: "unmarshal_responses unmarshal refObjs 0 rs heap []
        = Continue (heap', take (length rs) refObjs)"
    and h: "\<forall>j < length rs. heap' (refObjs ! j) = snd (unmarshal (rs ! j) (heap (refObjs ! j)))"
           "\<forall>a. a \<notin> set (take (length rs) refObjs) \<longrightarrow> heap' a = heap a"
    by auto
  from assms(1-5) u have "BatchGet unmarshal svc t fc queries refObjs w heap
             = Some (Inr ((Some (take (length rs) refObjs), None), heap', Reset fc,
                   w\<lparr>provider := p',
                     submitted := submitted w @
                       [\<lparr>RequestItems = [(TableName t, \<lparr>Keys = get_keys t queries []\<rparr>)]\<rparr>]\<rparr>))"
    by (simp add: BatchGet_def, subst BatchGet_loop.simps) (simp add: batchGetUtil_def)
  with h show ?thesis by blast
qed

theorem BatchGet_fills_slots_by_position_witness:
  "length [Some (query_of ''1997''), Some (query_of ''1998'')] \<le> 100
   \<and> length [Some (query_of ''1997''), Some (query_of ''1998'')] = length [0::nat, 1]
   \<and> distinct (take 2 [0::nat, 1])
   \<and> (\<exists>heap'. BatchGet unmarshal_store
          (answer_with [keyMaker (query_of ''1998'') demo_table,
                        keyMaker (query_of ''1997'') demo_table])
          demo_table midway [Some (query_of ''1997''), Some (query_of ''1998'')] [0, 1]
          (world0 0) empty_heap
        = Some (Inr ((Some [0, 1], None), heap', DefaultFailConfig,
             world0 0\<lparr>provider := 1,
               submitted := [\<lparr>RequestItems = [(''movies'',
                  \<lparr>Keys = [keyMaker (query_of ''1997'') demo_table,
                            keyMaker (query_of ''1998'') demo_table]\<rparr>)]\<rparr>]\<rparr>))
      \<and> heap' 0 = keyMaker (query_of ''1998'') demo_table
      \<and> heap' 1 = keyMaker (query_of ''1997'') demo_table)"
  using BatchGet_fills_slots_by_position
    [where queries = "[Some (query_of ''1997''), Some (query_of ''1998'')]"
       and refObjs = "[0, 1]"
       and svc = "answer_with [keyMaker (query_of ''1998'') demo_table,
                                keyMaker (query_of ''1997'') demo_table]"
       and w = "world0 0" and t = demo_table
       and result = "\<lparr>Responses = Some [(''movies'',
                         [keyMaker (query_of ''1998'') demo_table,
                          keyMaker (query_of ''1997'') demo_table])],
                       UnprocessedKeys = None\<rparr>"
       and p' = 1
       and rs = "[keyMaker (query_of ''1998'') demo_table, keyMaker (query_of ''1997'') demo_table]"
       and unmarshal = unmarshal_store and heap = empty_heap and fc = midway]
  apply (simp add: answer_with_def world0_def demo_table_def len_map_def index_map_def
      unmarshal_store_def midway_def Reset_def DefaultFailConfig_def)
  apply (simp add: less_Suc_eq all_conj_distrib numeral_2_eq_2)
  apply blast
  done

text \<open>
  Claim C3 as stated fails: the keys 1997 and 1998 are requested in that order and the
  provider returns the record of 1998 first. The slot of the first key then holds the
  record of 1998 and the slot of the second key the record of 1997.
\<close>

theorem BatchGet_slots_follow_response_order:
  "BatchGet unmarshal_store
        (answer_with [keyMaker (query_of ''1998'') demo_table, keyMaker (query_of ''1997'') demo_table])
        demo_table DefaultFailConfig
        [Some (query_of ''1997''), Some (query_of ''1998'')] [0, 1] (world0 0) empty_heap
      = Some (Inr ((Some [0, 1], None),
                   empty_heap(0 := keyMaker (query_of ''1998'') demo_table,
                              1 := keyMaker (query_of ''1997'') demo_table),
                   DefaultFailConfig,
                   world0 0\<lparr>provider := 1,
                     submitted := [\<lparr>RequestItems = [(''movies'',
                        \<lparr>Keys = [keyMaker (query_of ''1997'') demo_table,
                                  keyMaker (query_of ''1998'') demo_table]\<rparr>)]\<rparr>]\<rparr>))
   \<and> keyMaker (query_of ''1998'') demo_table \<noteq> keyMaker (query_of ''1997'') demo_table"
  apply (simp add: BatchGet_def)
  apply (subst BatchGet_loop.simps)
  apply (simp add: batchGetUtil_def answer_with_def world0_def demo_table_def index_map_def
      unmarshal_store_def Reset_def DefaultFailConfig_def len_map_def)
  apply (simp add: keyMaker_def query_of_def CreateNewQueryObj_def)
  done

text \<open>
  Claim C8, amended. In a call of \<open>ExponentialBackoff\<close> that returns, \<open>Attempt\<close> does
  not decrease. When the call is not the exhausted one (\<open>Elapsed\<close> differs from \<open>Cap\<close>),
  \<open>Attempt\<close> grows by one to \<open>n\<close>, and the wait drawn on line 38 with that \<open>n\<close> is a
  whole number \<open>k\<close> with \<open>0 \<le> k < Base * 2 ^ n\<close>; it is the wait of the last sleep, in
  milliseconds. Within a call of a batch function \<open>Attempt\<close> does not decrease from one
  round of the loop to the next (and each loop is its round, repeated), a call that
  returns an error leaves \<open>Attempt\<close> at least where it found it, and a call that returns
  no error leaves the \<open>FailConfig\<close> reset: the counter goes down only by the \<open>Reset\<close>
  that ends a call without error.
\<close>

theorem attempt_counter_and_wait:
  "(ExponentialBackoff fc w = Inr (fc', w') \<longrightarrow>
      Attempt fc \<le> Attempt fc' \<and>
      (Elapsed fc \<noteq> Cap fc \<longrightarrow>
         Attempt fc' = Attempt fc + 1 \<and>
         (\<exists>k w1. draw_wait (fc\<lparr>Attempt := Attempt fc'\<rparr>) w = Inr (k, w1) \<and>
            0 \<le> k \<and> real_of_int k < Base fc * 2 ^ Attempt fc' \<and>
            last (slept w') = wrap64 (k * Millisecond))))
   \<and> (BatchWriteCreate marshal wsvc t fc items ww = Some (Inr (r, fc2, ww')) \<longrightarrow>
        (r \<noteq> None \<longrightarrow> Attempt fc \<le> Attempt fc2) \<and> (r = None \<longrightarrow> fc2 = Reset fc2))
   \<and> (BatchWriteDelete wsvc t fc dqueries ww = Some (Inr (r, fc2, ww')) \<longrightarrow>
        (r \<noteq> None \<longrightarrow> Attempt fc \<le> Attempt fc2) \<and> (r = None \<longrightarrow> fc2 = Reset fc2))
   \<and> (BatchGet unmarshal gsvc t fc queries refObjs gw heap = Some (Inr (gr, heap', fc2, gw')) \<longrightarrow>
        (snd gr \<noteq> None \<longrightarrow> Attempt fc \<le> Attempt fc2) \<and> (snd gr = None \<longrightarrow> fc2 = Reset fc2))
   \<and> (BatchWriteCreate_round wsvc input fc ww = Continue (input', fc2, ww') \<longrightarrow>
        Attempt fc \<le> Attempt fc2)
   \<and> (BatchWriteDelete_round wsvc input fc ww = Continue (input', fc2, ww') \<longrightarrow>
        Attempt fc \<le> Attempt fc2)
   \<and> (BatchGet_round unmarshal gsvc t refObjs ginput fc gw heap gitems
          = Continue (ginput', fc2, gw', heap', gitems') \<longrightarrow>
        Attempt fc \<le> Attempt fc2)
   \<and> BatchWriteCreate_loop wsvc input fc ww
        = (case BatchWriteCreate_round wsvc input fc ww of
             Return y \<Rightarrow> Some (Inr y)
           | Fault f \<Rightarrow> Some (Inl f)
           | Continue (input', fc', ww') \<Rightarrow> BatchWriteCreate_loop wsvc input' fc' ww')
   \<and> BatchWriteDelete_loop wsvc input fc ww
        = (case BatchWriteDelete_round wsvc input fc ww of
             Return y \<Rightarrow> Some (Inr y)
           | Fault f \<Rightarrow> Some (Inl f)
           | Continue (input', fc', ww') \<Rightarrow> BatchWriteDelete_loop wsvc input' fc' ww')
   \<and> BatchGet_loop unmarshal gsvc t refObjs ginput fc gw heap gitems
        = (case BatchGet_round unmarshal gsvc t refObjs ginput fc gw heap gitems of
             Return y \<Rightarrow> Some (Inr y)
           | Fault f \<Rightarrow> Some (Inl f)
           | Continue (ginput', fc', gw', heap', gitems') \<Rightarrow>
               BatchGet_loop unmarshal gsvc t refObjs ginput' fc' gw' heap' gitems')"
proof (intro conjI)
  show "ExponentialBackoff fc w = Inr (fc', w') \<longrightarrow>
      Attempt fc \<le> Attempt fc' \<and>
      (Elapsed fc \<noteq> Cap fc \<longrightarrow>
         Attempt fc' = Attempt fc + 1 \<and>
         (\<exists>k w1. draw_wait (fc\<lparr>Attempt := Attempt fc'\<rparr>) w = Inr (k, w1) \<and>
            0 \<le> k \<and> real_of_int k < Base fc * 2 ^ Attempt fc' \<and>
            last (slept w') = wrap64 (k * Millisecond)))"
  proof (intro impI conjI)
    assume a: "ExponentialBackoff fc w = Inr (fc', w')"
    then show "Attempt fc \<le> Attempt fc'" by (rule ExponentialBackoff_Attempt_mono)
    assume ne: "Elapsed fc \<noteq> Cap fc"
    let ?fc1 = "fc\<lparr>Attempt := Attempt fc + 1\<rparr>"
    from a ne obtain k w1 fc3 w3 where d: "draw_wait ?fc1 w = Inr (k, w1)"
      and c: "clamp_to_cap k ?fc1 w1 = Inr (fc3, w3)"
      and e: "fc' = fc3\<lparr>Elapsed := Elapsed fc3 + real_of_int k\<rparr>"
             "w' = time_Sleep (wrap64 (k * Millisecond)) w3"
      by (auto simp: ExponentialBackoff_def Let_def split: sum.splits prod.splits)
    from c have att: "Attempt fc3 = Attempt fc + 1"
      by (auto simp: clamp_to_cap_def split: if_splits option.splits)
    with e show "Attempt fc' = Attempt fc + 1" by simp
    from draw_wait_bound[OF d]
    have b: "0 \<le> k" "real_of_int k < Base fc * 2 ^ (Attempt fc + 1)" by simp_all
    from e att d b
    show "\<exists>k w1. draw_wait (fc\<lparr>Attempt := Attempt fc'\<rparr>) w = Inr (k, w1) \<and>
            0 \<le> k \<and> real_of_int k < Base fc * 2 ^ Attempt fc' \<and>
            last (slept w') = wrap64 (k * Millisecond)"
      by (auto simp: time_Sleep_def)
  qed
next
  show "BatchWriteCreate marshal wsvc t fc items ww = Some (Inr (r, fc2, ww')) \<longrightarrow>
        (r \<noteq> None \<longrightarrow> Attempt fc \<le> Attempt fc2) \<and> (r = None \<longrightarrow> fc2 = Reset fc2)"
  proof
    assume a: "BatchWriteCreate marshal wsvc t fc items ww = Some (Inr (r, fc2, ww'))"
    show "(r \<noteq> None \<longrightarrow> Attempt fc \<le> Attempt fc2) \<and> (r = None \<longrightarrow> fc2 = Reset fc2)"
    proof (cases "25 < length items")
      case True
      with a show ?thesis by (auto simp: BatchWriteCreate_def)
    next
      case False
      show ?thesis
      proof (cases "put_requests marshal items []")
        case (Inl e)
        with a False show ?thesis by (auto simp: BatchWriteCreate_def)
      next
        case (Inr wrs)
        with a False have "BatchWriteCreate_loop wsvc
            \<lparr>RequestItems = AList.update (TableName t) wrs []\<rparr> fc ww = Some (Inr (r, fc2, ww'))"
          by (simp add: BatchWriteCreate_def)
        from BatchWriteCreate_loop_invariant[OF this] show ?thesis by blast
      qed
    qed
  qed
next
  show "BatchWriteDelete wsvc t fc dqueries ww = Some (Inr (r, fc2, ww')) \<longrightarrow>
        (r \<noteq> None \<longrightarrow> Attempt fc \<le> Attempt fc2) \<and> (r = None \<longrightarrow> fc2 = Reset fc2)"
  proof
    assume a: "BatchWriteDelete wsvc t fc dqueries ww = Some (Inr (r, fc2, ww'))"
    show "(r \<noteq> None \<longrightarrow> Attempt fc \<le> Attempt fc2) \<and> (r = None \<longrightarrow> fc2 = Reset fc2)"
    proof (cases "25 < length dqueries")
      case True
      with a show ?thesis by (auto simp: BatchWriteDelete_def)
    next
      case False
      with a have "BatchWriteDelete_loop wsvc
          \<lparr>RequestItems = AList.update (TableName t) (delete_requests t dqueries []) []\<rparr> fc ww
            = Some (Inr (r, fc2, ww'))"
        by (simp add: BatchWriteDelete_def)
      from BatchWriteDelete_loop_invariant[OF this] show ?thesis by blast
    qed
  qed
next
  show "BatchGet unmarshal gsvc t fc queries refObjs gw heap = Some (Inr (gr, heap', fc2, gw')) \<longrightarrow>
        (snd gr \<noteq> None \<longrightarrow> Attempt fc \<le> Attempt fc2) \<and> (snd gr = None \<longrightarrow> fc2 = Reset fc2)"
  proof
    assume a: "BatchGet unmarshal gsvc t fc queries refObjs gw heap
                 = Some (Inr (gr, heap', fc2, gw'))"
    show "(snd gr \<noteq> None \<longrightarrow> Attempt fc \<le> Attempt fc2) \<and> (snd gr = None \<longrightarrow> fc2 = Reset fc2)"
    proof (cases "100 < length queries \<or> length queries \<noteq> length refObjs")
      case True
      with a show ?thesis by (auto simp: BatchGet_def split: if_splits)
    next
      case False
      with a have "BatchGet_loop unmarshal gsvc t refObjs
          \<lparr>RequestItems = AList.update (TableName t) \<lparr>Keys = get_keys t queries []\<rparr> []\<rparr>
          fc gw heap [] = Some (Inr (gr, heap', fc2, gw'))"
        by (simp add: BatchGet_def)
      from BatchGet_loop_invariant[OF this] show ?thesis by blast
    qed
  qed
next
  show "BatchWriteCreate_round wsvc input fc ww = Continue (input', fc2, ww') \<longrightarrow>
        Attempt fc \<le> Attempt fc2"
    by (blast dest: BatchWriteCreate_round_Attempt)
next
  show "BatchWriteDelete_round wsvc input fc ww = Continue (input', fc2, ww') \<longrightarrow>
        Attempt fc \<le> Attempt fc2"
    by (blast dest: BatchWriteDelete_round_Attempt)
next
  show "BatchGet_round unmarshal gsvc t refObjs ginput fc gw heap gitems
          = Continue (ginput', fc2, gw', heap', gitems') \<longrightarrow>
        Attempt fc \<le> Attempt fc2"
    by (blast dest: BatchGet_round_Attempt)
next
  show "BatchWriteCreate_loop wsvc input fc ww
        = (case BatchWriteCreate_round wsvc input fc ww of
             Return y \<Rightarrow> Some (Inr y)
           | Fault f \<Rightarrow> Some (Inl f)
           | Continue (input', fc', ww') \<Rightarrow> BatchWriteCreate_loop wsvc input' fc' ww')"
    by (rule BatchWriteCreate_loop_round)
next
  show "BatchWriteDelete_loop wsvc input fc ww
        = (case BatchWriteDelete_round wsvc input fc ww of
             Return y \<Rightarrow> Some (Inr y)
           | Fault f \<Rightarrow> Some (Inl f)
           | Continue (input', fc', ww') \<Rightarrow> BatchWriteDelete_loop wsvc input' fc' ww')"
    by (rule BatchWriteDelete_loop_round)
next
  show "BatchGet_loop unmarshal gsvc t refObjs ginput fc gw heap gitems
        = (case BatchGet_round unmarshal gsvc t refObjs ginput fc gw heap gitems of
             Return y \<Rightarrow> Some (Inr y)
           | Fault f \<Rightarrow> Some (Inl f)
           | Continue (ginput', fc', gw', heap', gitems') \<Rightarrow>
               BatchGet_loop unmarshal gsvc t refObjs ginput' fc' gw' heap' gitems')"
    by (rule BatchGet_loop_round)
qed

theorem attempt_counter_and_wait_witness:
  "ExponentialBackoff DefaultFailConfig (world0 70 :: (nat, BatchWriteItemInput) world)
     = Inr (DefaultFailConfig\<lparr>Attempt := 1, Elapsed := 70\<rparr>,
            world0 70\<lparr>rand_pos := 1, slept := [70000000]\<rparr>)
   \<and> Attempt DefaultFailConfig \<le> Attempt (DefaultFailConfig\<lparr>Attempt := 1, Elapsed := 70\<rparr>)
   \<and> last (slept (world0 70\<lparr>rand_pos := 1, slept := [70000000]\<rparr>
                    :: (nat, BatchWriteItemInput) world))
      = wrap64 (70 * Millisecond)
   \<and> real_of_int 70 < Base DefaultFailConfig * 2 ^ 1
   \<and> BatchWriteCreate marshal_year (busy_then_rejected [(''movies'', [put_of ''1999''])])
        demo_table DefaultFailConfig [Some ''1997'', Some ''1998'', Some ''1999''] (world0 70)
      = Some (Inr (Some (AwsError ''ValidationException'' ''rejected''),
           DefaultFailConfig\<lparr>Attempt := 1, Elapsed := 70\<rparr>,
           world0 70\<lparr>rand_pos := 1, slept := [70000000], provider := 2,
             submitted :=
               [\<lparr>RequestItems = [(''movies'', [put_of ''1997'', put_of ''1998'', put_of ''1999''])]\<rparr>,
                \<lparr>RequestItems = [(''movies'', [put_of ''1999''])]\<rparr>]\<rparr>))
   \<and> BatchWriteDelete (partial_then_done []) demo_table midway
        [None, Some (query_of ''1997'')] (world0 0)
      = Some (Inr (None, DefaultFailConfig,
           world0 0\<lparr>provider := 1,
             submitted := [\<lparr>RequestItems = [(''movies'',
                [\<lparr>PutRequest = None,
                  DeleteRequest = Some (keyMaker (query_of ''1997'') demo_table)\<rparr>])]\<rparr>]\<rparr>))
   \<and> BatchGet unmarshal_store (answer_with []) demo_table midway
        [Some (query_of ''1997''), None] [0, 1] (world0 0) empty_heap
      = Some (Inr ((Some [], None), empty_heap, DefaultFailConfig,
           world0 0\<lparr>provider := 1,
             submitted := [\<lparr>RequestItems = [(''movies'',
                \<lparr>Keys = [keyMaker (query_of ''1997'') demo_table]\<rparr>)]\<rparr>]\<rparr>))
   \<and> DefaultFailConfig = Reset DefaultFailConfig
   \<and> BatchWriteCreate_round (busy_then_done [(''movies'', [put_of ''1999''])])
        \<lparr>RequestItems = [(''movies'', [put_of ''1997'', put_of ''1998'', put_of ''1999''])]\<rparr>
        DefaultFailConfig (world0 70)
      = Continue (\<lparr>RequestItems = [(''movies'', [put_of ''1999''])]\<rparr>,
           DefaultFailConfig\<lparr>Attempt := 1, Elapsed := 70\<rparr>,
           world0 70\<lparr>rand_pos := 1, slept := [70000000], provider := 1,
             submitted :=
               [\<lparr>RequestItems = [(''movies'', [put_of ''1997'', put_of ''1998'', put_of ''1999''])]\<rparr>]\<rparr>)
   \<and> BatchWriteDelete_round (busy_then_done [(''movies'', [put_of ''1999''])])
        \<lparr>RequestItems = [(''movies'', [put_of ''1997'', put_of ''1998'', put_of ''1999''])]\<rparr>
        DefaultFailConfig (world0 70)
      = Continue (\<lparr>RequestItems = [(''movies'', [put_of ''1999''])]\<rparr>,
           DefaultFailConfig\<lparr>Attempt := 1, Elapsed := 70\<rparr>,
           world0 70\<lparr>rand_pos := 1, slept := [70000000], provider := 1,
             submitted :=
               [\<lparr>RequestItems = [(''movies'', [put_of ''1997'', put_of ''1998'', put_of ''1999''])]\<rparr>]\<rparr>)
   \<and> BatchGet_round unmarshal_store
        (get_busy_then_rejected
           [(''movies'', \<lparr>Keys = [keyMaker (query_of ''1998'') demo_table]\<rparr>)])
        demo_table [0, 1]
        \<lparr>RequestItems = [(''movies'', \<lparr>Keys = [keyMaker (query_of ''1997'') demo_table,
                                                keyMaker (query_of ''1998'') demo_table]\<rparr>)]\<rparr>
        DefaultFailConfig (world0 70) empty_heap []
      = Continue (\<lparr>RequestItems =
                     [(''movies'', \<lparr>Keys = [keyMaker (query_of ''1998'') demo_table]\<rparr>)]\<rparr>,
           DefaultFailConfig\<lparr>Attempt := 1, Elapsed := 70\<rparr>,
           world0 70\<lparr>rand_pos := 1, slept := [70000000], provider := 1,
             submitted :=
               [\<lparr>RequestItems = [(''movies'', \<lparr>Keys = [keyMaker (query_of ''1997'') demo_table,
                                                keyMaker (query_of ''1998'') demo_table]\<rparr>)]\<rparr>]\<rparr>,
           empty_heap, [])"
  using attempt_counter_and_wait
    [where fc = DefaultFailConfig and w = "world0 70 :: (nat, BatchWriteItemInput) world"
       and fc' = "DefaultFailConfig\<lparr>Attempt := 1, Elapsed := 70\<rparr>"
       and w' = "world0 70\<lparr>rand_pos := 1, slept := [70000000]\<rparr>"
       and marshal = marshal_year
       and wsvc = "busy_then_rejected [(''movies'', [put_of ''1999''])]" and t = demo_table
       and items = "[Some ''1997'', Some ''1998'', Some ''1999'']" and ww = "world0 70"
       and r = "Some (AwsError ''ValidationException'' ''rejected'')"
       and ?fc2.0 = "DefaultFailConfig\<lparr>Attempt := 1, Elapsed := 70\<rparr>"
       and ww' = "world0 70\<lparr>rand_pos := 1, slept := [70000000], provider := 2,
             submitted :=
               [\<lparr>RequestItems = [(''movies'', [put_of ''1997'', put_of ''1998'', put_of ''1999''])]\<rparr>,
                \<lparr>RequestItems = [(''movies'', [put_of ''1999''])]\<rparr>]\<rparr>"]
    attempt_counter_and_wait
    [where fc = midway and wsvc = "partial_then_done []" and t = demo_table
       and dqueries = "[None, Some (query_of ''1997'')]" and ww = "world0 0" and r = None
       and ?fc2.0 = DefaultFailConfig
       and ww' = "world0 0\<lparr>provider := 1,
             submitted := [\<lparr>RequestItems = [(''movies'',
                [\<lparr>PutRequest = None,
                  DeleteRequest = Some (keyMaker (query_of ''1997'') demo_table)\<rparr>])]\<rparr>]\<rparr>"
       and unmarshal = unmarshal_store and gsvc = "answer_with []"
       and queries = "[Some (query_of ''1997''), None]" and refObjs = "[0, 1]"
       and gw = "world0 0" and heap = empty_heap and gr = "(Some [], None)"
       and heap' = empty_heap
       and gw' = "world0 0\<lparr>provider := 1,
             submitted := [\<lparr>RequestItems = [(''movies'',
                \<lparr>Keys = [keyMaker (query_of ''1997'') demo_table]\<rparr>)]\<rparr>]\<rparr>"]
    attempt_counter_and_wait
    [where fc = DefaultFailConfig and wsvc = "busy_then_done [(''movies'', [put_of ''1999''])]"
       and input = "\<lparr>RequestItems =
                      [(''movies'', [put_of ''1997'', put_of ''1998'', put_of ''1999''])]\<rparr>"
       and ww = "world0 70"
       and input' = "\<lparr>RequestItems = [(''movies'', [put_of ''1999''])]\<rparr>"
       and ?fc2.0 = "DefaultFailConfig\<lparr>Attempt := 1, Elapsed := 70\<rparr>"
       and ww' = "world0 70\<lparr>rand_pos := 1, slept := [70000000], provider := 1,
             submitted :=
               [\<lparr>RequestItems = [(''movies'', [put_of ''1997'', put_of ''1998'', put_of ''1999''])]\<rparr>]\<rparr>"
       and unmarshal = unmarshal_store
       and gsvc = "get_busy_then_rejected
                     [(''movies'', \<lparr>Keys = [keyMaker (query_of ''1998'') demo_table]\<rparr>)]"
       and t = demo_table and refObjs = "[0, 1]"
       and ginput = "\<lparr>RequestItems = [(''movies'',
                       \<lparr>Keys = [keyMaker (query_of ''1997'') demo_table,
                                 keyMaker (query_of ''1998'') demo_table]\<rparr>)]\<rparr>"
       and gw = "world0 70" and heap = empty_heap and gitems = "[]"
       and ginput' = "\<lparr>RequestItems =
                        [(''movies'', \<lparr>Keys = [keyMaker (query_of ''1998'') demo_table]\<rparr>)]\<rparr>"
       and gw' = "world0 70\<lparr>rand_pos := 1, slept := [70000000], provider := 1,
             submitted :=
               [\<lparr>RequestItems = [(''movies'', \<lparr>Keys = [keyMaker (query_of ''1997'') demo_table,
                                                keyMaker (query_of ''1998'') demo_table]\<rparr>)]\<rparr>]\<rparr>"
       and heap' = empty_heap and gitems' = "[]"]
    backoff_run create_run_with_retry delete_run_with_nil get_run_with_nil
    create_round_with_retry delete_round_with_retry get_round_with_retry
  by (simp add: DefaultFailConfig_def wrap64_def Millisecond_def world0_def Reset_def)

text \<open>
  Claim C8 as stated fails in its second part: three items are written from the default
  \<open>FailConfig\<close>; the first round ends in the internal server error with one item
  unprocessed and hands \<open>Attempt = 1\<close> to the second round, which succeeds; the call
  then resets the \<open>FailConfig\<close> and returns with \<open>Attempt = 0\<close>.
\<close>

theorem attempt_counter_reset_within_call:
  "BatchWriteCreate_round (busy_then_done [(''movies'', [put_of ''1999''])])
     \<lparr>RequestItems = [(''movies'', [put_of ''1997'', put_of ''1998'', put_of ''1999''])]\<rparr>
     DefaultFailConfig (world0 70)
   = Continue (\<lparr>RequestItems = [(''movies'', [put_of ''1999''])]\<rparr>,
        DefaultFailConfig\<lparr>Attempt := 1, Elapsed := 70\<rparr>,
        world0 70\<lparr>rand_pos := 1, slept := [70000000], provider := 1,
          submitted :=
            [\<lparr>RequestItems = [(''movies'', [put_of ''1997'', put_of ''1998'', put_of ''1999''])]\<rparr>]\<rparr>)
   \<and> BatchWriteCreate marshal_year (busy_then_done [(''movies'', [put_of ''1999''])]) demo_table
        DefaultFailConfig [Some ''1997'', Some ''1998'', Some ''1999''] (world0 70)
      = Some (Inr (None, DefaultFailConfig,
           world0 70\<lparr>rand_pos := 1, slept := [70000000], provider := 2,
             submitted :=
               [\<lparr>RequestItems = [(''movies'', [put_of ''1997'', put_of ''1998'', put_of ''1999''])]\<rparr>,
                \<lparr>RequestItems = [(''movies'', [put_of ''1999''])]\<rparr>]\<rparr>))
   \<and> Attempt (DefaultFailConfig\<lparr>Attempt := 1, Elapsed := 70\<rparr>) = 1
   \<and> Attempt DefaultFailConfig = 0"
  using create_round_with_retry create_run_retry_then_done
  by (simp add: DefaultFailConfig_def)

end
